theory Spec2Isabelle
  imports Complex_Main "HOL-Library.Signed_Division"
begin

section \<open>Head pose estimation (head\_pose\_estimation.cpp)\<close>

text \<open>
  A shallow embedding of \<^verbatim>\<open>src/head_pose_estimation.cpp\<close>.

  Conventions of the embedding.
  \<^item> In \<^verbatim>\<open>intersection\<close>, whose arguments are arbitrary \<^verbatim>\<open>float\<close> values and whose
    branch and result depend on rounding, and in the label text of \<^verbatim>\<open>drawPose\<close>, the
    \<^verbatim>\<open>float\<close> and \<^verbatim>\<open>double\<close> operations are those of IEEE 754 binary32 and binary64:
    round to nearest, ties to even, with subnormal numbers, overflow to infinity and NaN.
    Each operation rounds on its own (no fused multiply-add); the sign of zero is not
    represented.
  \<^item> Elsewhere \<^verbatim>\<open>float\<close> and \<^verbatim>\<open>double\<close> values are embedded as \<^typ>\<open>real\<close>: the pixel
    coordinates of landmarks, the camera parameters and the entries of the pose matrix.
  \<^item> C++ \<^verbatim>\<open>int\<close> values are embedded as \<^typ>\<open>int\<close>; a narrowing conversion is written out
    with \<^const>\<open>signed_take_bit\<close>, integer division truncates (\<open>sdiv\<close>).
  \<^item> \<^verbatim>\<open>std::vector::operator[]\<close> has no bounds check: a read past the end is undefined
    behaviour in C++. The embedding makes it a result value, \<open>Inl OutOfBoundsRead\<close>.
  \<^item> The calls into OpenCV and dlib (face detector, shape predictor, \<^verbatim>\<open>solvePnP\<close>,
    \<^verbatim>\<open>Rodrigues\<close>, \<^verbatim>\<open>projectPoints\<close>) and the constants of the header
    \<^verbatim>\<open>head_pose_estimation.hpp\<close> are parameters, collected in one record.
\<close>

subsection \<open>Points\<close>

text \<open>\<^verbatim>\<open>cv::Point_<T>\<close>; \<^verbatim>\<open>cv::Point\<close> is \<^verbatim>\<open>Point_<int>\<close>, \<^verbatim>\<open>cv::Point2f\<close> is \<^verbatim>\<open>Point_<float>\<close>.\<close>

datatype 'a PointT = PointT (xc: 'a) (yc: 'a)

type_synonym Point = "int PointT"
type_synonym Point2f = "real PointT"

datatype Point3f = Point3f real real real

text \<open>\<^verbatim>\<open>operator+\<close>, \<^verbatim>\<open>operator-\<close> and \<^verbatim>\<open>operator*(Point_, double)\<close> of \<^verbatim>\<open>cv::Point_<float>\<close>
  on real coordinates.\<close>

definition pt_add :: "Point2f \<Rightarrow> Point2f \<Rightarrow> Point2f" where
  "pt_add a b = PointT (xc a + xc b) (yc a + yc b)"

definition pt_sub :: "Point2f \<Rightarrow> Point2f \<Rightarrow> Point2f" where
  "pt_sub a b = PointT (xc a - xc b) (yc a - yc b)"

definition pt_scale :: "Point2f \<Rightarrow> real \<Rightarrow> Point2f" where
  "pt_scale a k = PointT (xc a * k) (yc a * k)"

subsection \<open>IEEE 754 arithmetic\<close>

text \<open>A floating-point value: a finite number, an infinity or NaN.\<close>

datatype fp = Finite real | PInf | NInf | NaN

text \<open>The nearest integer, a half going to the even neighbour.\<close>

definition nearest_even :: "real \<Rightarrow> int" where
  "nearest_even v =
     (let f = \<lfloor>v\<rfloor>; d = v - of_int f
      in if d < 1 / 2 then f else if 1 / 2 < d then f + 1 else if even f then f else f + 1)"

text \<open>
  The binade of a scaled magnitude \<open>s\<close>: the least \<open>j\<close> from \<open>j\<close> on with \<open>s < 2 ^ (j + 1)\<close>,
  looked for in at most \<open>n\<close> steps.
\<close>

fun exp_search :: "nat \<Rightarrow> nat \<Rightarrow> real \<Rightarrow> nat" where
  "exp_search 0 j s = j"
| "exp_search (Suc n) j s = (if s < 2 ^ Suc j then j else exp_search n (Suc j) s)"

text \<open>
  Rounding of a real number to the format with \<open>p\<close> bits of precision and least normal
  exponent \<open>- bias\<close> (greatest exponent \<open>bias + 1\<close>): the magnitude is scaled by
  \<open>2 ^ bias\<close>, its binade \<open>j\<close> found (\<open>j = 0\<close> for the subnormal range), and the magnitude
  rounded to a multiple of the spacing \<open>2 ^ j / 2 ^ (bias + p - 1)\<close> of that binade. A result
  of \<open>2 ^ (bias + 2)\<close> or more is an overflow.
\<close>

definition rnd :: "nat \<Rightarrow> nat \<Rightarrow> real \<Rightarrow> fp" where
  "rnd p bias v =
     (if v = 0 then Finite 0
      else let j = exp_search (2 * bias + 2) 0 (\<bar>v\<bar> * 2 ^ bias);
               m = nearest_even (\<bar>v\<bar> * 2 ^ (bias + p - 1) / 2 ^ j);
               y = of_int m * 2 ^ j / 2 ^ (bias + p - 1)
           in if 2 ^ (bias + 2) \<le> y then (if 0 < v then PInf else NInf)
              else Finite (if 0 < v then y else - y))"

text \<open>binary32 (\<^verbatim>\<open>float\<close>) and binary64 (\<^verbatim>\<open>double\<close>).\<close>

definition rnd32 :: "real \<Rightarrow> fp" where
  "rnd32 = rnd 24 126"

definition rnd64 :: "real \<Rightarrow> fp" where
  "rnd64 = rnd 53 1022"

text \<open>
  The operations, for a rounding \<open>r\<close> of the exact result of two finite operands. A zero
  divisor is taken as \<open>+0\<close>.
\<close>

fun fneg :: "fp \<Rightarrow> fp" where
  "fneg (Finite a) = Finite (- a)"
| "fneg PInf = NInf"
| "fneg NInf = PInf"
| "fneg NaN = NaN"

fun fadd :: "(real \<Rightarrow> fp) \<Rightarrow> fp \<Rightarrow> fp \<Rightarrow> fp" where
  "fadd r (Finite a) (Finite b) = r (a + b)"
| "fadd r NaN b = NaN"
| "fadd r a NaN = NaN"
| "fadd r PInf NInf = NaN"
| "fadd r NInf PInf = NaN"
| "fadd r PInf b = PInf"
| "fadd r NInf b = NInf"
| "fadd r a b = b"

definition fsub :: "(real \<Rightarrow> fp) \<Rightarrow> fp \<Rightarrow> fp \<Rightarrow> fp" where
  "fsub r a b = fadd r a (fneg b)"

fun fmul :: "(real \<Rightarrow> fp) \<Rightarrow> fp \<Rightarrow> fp \<Rightarrow> fp" where
  "fmul r (Finite a) (Finite b) = r (a * b)"
| "fmul r NaN b = NaN"
| "fmul r a NaN = NaN"
| "fmul r (Finite a) b = (if a = 0 then NaN else if 0 < a then b else fneg b)"
| "fmul r a (Finite b) = (if b = 0 then NaN else if 0 < b then a else fneg a)"
| "fmul r PInf b = b"
| "fmul r NInf b = fneg b"

fun fdiv :: "(real \<Rightarrow> fp) \<Rightarrow> fp \<Rightarrow> fp \<Rightarrow> fp" where
  "fdiv r (Finite a) (Finite b) =
     (if b = 0 then (if a = 0 then NaN else if 0 < a then PInf else NInf) else r (a / b))"
| "fdiv r NaN b = NaN"
| "fdiv r a NaN = NaN"
| "fdiv r (Finite a) b = Finite 0"
| "fdiv r a (Finite b) = (if 0 \<le> b then a else fneg a)"
| "fdiv r a b = NaN"

fun fabs :: "fp \<Rightarrow> fp" where
  "fabs (Finite a) = Finite \<bar>a\<bar>"
| "fabs PInf = PInf"
| "fabs NInf = PInf"
| "fabs NaN = NaN"

text \<open>The comparison \<^verbatim>\<open><\<close>; it is false when an operand is NaN.\<close>

fun flt :: "fp \<Rightarrow> fp \<Rightarrow> bool" where
  "flt (Finite a) (Finite b) = (a < b)"
| "flt NaN b = False"
| "flt a NaN = False"
| "flt PInf b = False"
| "flt a NInf = False"
| "flt a b = True"

text \<open>The conversion of a \<^verbatim>\<open>double\<close> to \<^verbatim>\<open>float\<close>; the one of a \<^verbatim>\<open>float\<close> to \<^verbatim>\<open>double\<close>
  changes nothing.\<close>

fun to_float :: "fp \<Rightarrow> fp" where
  "to_float (Finite a) = rnd32 a"
| "to_float a = a"

subsection \<open>The line intersection helper\<close>

text \<open>
  \<^verbatim>\<open>cv::Point2f\<close> with its two \<^verbatim>\<open>float\<close> coordinates as floating-point values, and the
  operators of \<^verbatim>\<open>cv::Point_<float>\<close>: \<^verbatim>\<open>operator-\<close> and \<^verbatim>\<open>operator+\<close> work on
  \<^verbatim>\<open>float\<close>; \<^verbatim>\<open>operator*(Point_<float>, double)\<close> multiplies in \<^verbatim>\<open>double\<close> and converts
  each product to \<^verbatim>\<open>float\<close>.
\<close>

type_synonym Point2f_ieee = "fp PointT"

definition pt_sub32 :: "Point2f_ieee \<Rightarrow> Point2f_ieee \<Rightarrow> Point2f_ieee" where
  "pt_sub32 a b = PointT (fsub rnd32 (xc a) (xc b)) (fsub rnd32 (yc a) (yc b))"

definition pt_add32 :: "Point2f_ieee \<Rightarrow> Point2f_ieee \<Rightarrow> Point2f_ieee" where
  "pt_add32 a b = PointT (fadd rnd32 (xc a) (xc b)) (fadd rnd32 (yc a) (yc b))"

definition pt_scale64 :: "Point2f_ieee \<Rightarrow> fp \<Rightarrow> Point2f_ieee" where
  "pt_scale64 a k = PointT (to_float (fmul rnd64 (xc a) k)) (to_float (fmul rnd64 (yc a) k))"

text \<open>
  The \<^verbatim>\<open>float\<close> expression \<^verbatim>\<open>a.x*b.y - a.y*b.x\<close>, which the source evaluates for
  \<^verbatim>\<open>cross\<close> (line 282) and for the numerator of \<^verbatim>\<open>t1\<close> (line 286).
\<close>

definition cross32 :: "Point2f_ieee \<Rightarrow> Point2f_ieee \<Rightarrow> fp" where
  "cross32 a b = fsub rnd32 (fmul rnd32 (xc a) (yc b)) (fmul rnd32 (yc a) (xc b))"

text \<open>
  The literal \<^verbatim>\<open>1e-8\<close> of the comparison in \<^verbatim>\<open>intersection\<close>, a \<^verbatim>\<open>double\<close>; the
  \<^verbatim>\<open>float\<close> value \<^verbatim>\<open>abs(cross)\<close> is converted to \<^verbatim>\<open>double\<close> for the comparison.
\<close>

definition EPS :: fp where
  "EPS = rnd64 (1 / 10 ^ 8)"

text \<open>
  \<^verbatim>\<open>float cross = d1.x*d2.y - d1.y*d2.x;\<close> for the lines \<open>(o1, p1)\<close> and \<open>(o2, p2)\<close>.
\<close>

definition cross_of :: "Point2f_ieee \<Rightarrow> Point2f_ieee \<Rightarrow> Point2f_ieee \<Rightarrow> Point2f_ieee \<Rightarrow> fp" where
  "cross_of o1 p1 o2 p2 =
     (let d1 = pt_sub32 p1 o1; d2 = pt_sub32 p2 o2 in cross32 d1 d2)"

text \<open>
  \<^verbatim>\<open>bool intersection(Point2f o1, Point2f p1, Point2f o2, Point2f p2, Point2f &r)\<close>.
  The reference parameter \<open>r\<close> is passed in and returned next to the boolean result.
  The quotient for \<^verbatim>\<open>t1\<close> has two \<^verbatim>\<open>float\<close> operands, so it is a \<^verbatim>\<open>float\<close> division whose
  result is converted to \<^verbatim>\<open>double\<close>.
\<close>

definition intersection ::
  "Point2f_ieee \<Rightarrow> Point2f_ieee \<Rightarrow> Point2f_ieee \<Rightarrow> Point2f_ieee \<Rightarrow> Point2f_ieee
     \<Rightarrow> bool \<times> Point2f_ieee" where
  "intersection o1 p1 o2 p2 r =
     (let x = pt_sub32 o2 o1;
          d1 = pt_sub32 p1 o1;
          d2 = pt_sub32 p2 o2;
          cross = cross32 d1 d2
      in if flt (fabs cross) EPS then (False, r)
         else let t1 = fdiv rnd32 (cross32 x d2) cross
              in (True, pt_add32 o1 (pt_scale64 d1 t1)))"

subsection \<open>Unchecked vector reads\<close>

text \<open>
  \<open>OutOfBoundsRead\<close> stands for the undefined behaviour of an unchecked read past the end
  of a vector (\<^verbatim>\<open>std::vector::operator[]\<close>, \<^verbatim>\<open>full_object_detection::part\<close>).
  \<open>IndexError\<close> stands for a signalled index error, such as the exception of a checked
  access; no statement of the source raises one.
\<close>

datatype fault = IndexError | OutOfBoundsRead

definition bindF :: "fault + 'a \<Rightarrow> ('a \<Rightarrow> fault + 'b) \<Rightarrow> fault + 'b" where
  "bindF m f = (case m of Inl e \<Rightarrow> Inl e | Inr v \<Rightarrow> f v)"

definition vec_at :: "'a list \<Rightarrow> nat \<Rightarrow> fault + 'a" where
  "vec_at xs i = (if i < length xs then Inr (xs ! i) else Inl OutOfBoundsRead)"

text \<open>
  A loop \<^verbatim>\<open>for (x : xs) res.push_back(f(x))\<close> whose body may run into undefined
  behaviour: the elements are visited in order and the first fault ends the run.
\<close>

fun mapF :: "('a \<Rightarrow> fault + 'b) \<Rightarrow> 'a list \<Rightarrow> fault + 'b list" where
  "mapF f [] = Inr []"
| "mapF f (x # xs) = bindF (f x) (\<lambda>y. bindF (mapF f xs) (\<lambda>ys. Inr (y # ys)))"

subsection \<open>Matrices, images and the image store\<close>

type_synonym Vec3d = "real \<times> real \<times> real"
type_synonym Matx33 = "Vec3d \<times> Vec3d \<times> Vec3d"
type_synonym Vec4d = "real \<times> real \<times> real \<times> real"

text \<open>\<^verbatim>\<open>head_pose\<close>, a \<^verbatim>\<open>cv::Matx44d\<close>: four rows of four entries.\<close>

type_synonym head_pose = "Vec4d \<times> Vec4d \<times> Vec4d \<times> Vec4d"

text \<open>
  What a pixel buffer holds: the pixels it started with and the drawing calls applied to it
  since, in order. \<^verbatim>\<open>cv::line(img, pt1, pt2, color, thickness, CV_AA)\<close> and
  \<^verbatim>\<open>cv::putText(img, text, org, FONT_HERSHEY_SIMPLEX, fontScale, color, thickness)\<close>
  append one entry each.
\<close>

type_synonym Scalar = "nat \<times> nat \<times> nat"

datatype draw_cmd =
    Line Point Point Scalar nat
  | PutText string Point real Scalar nat

record canvas =
  base :: "nat list"
  marks :: "draw_cmd list"

text \<open>
  A \<^verbatim>\<open>cv::Mat\<close> is a header that points to a pixel buffer; copies of the header share
  the buffer. The store maps buffer addresses to their contents; addresses below \<open>brk\<close>
  are allocated.
\<close>

record Mat =
  rows :: int
  cols :: int
  data :: nat

record store =
  mem :: "nat \<Rightarrow> canvas"
  brk :: nat

text \<open>\<^verbatim>\<open>Mat::clone()\<close>: a new buffer with a copy of the contents.\<close>

definition clone :: "Mat \<Rightarrow> store \<Rightarrow> Mat \<times> store" where
  "clone m st =
     (m\<lparr>data := brk st\<rparr>,
      st\<lparr>mem := (mem st)(brk st := mem st (data m)), brk := Suc (brk st)\<rparr>)"

definition cv_line :: "store \<Rightarrow> Mat \<Rightarrow> Point \<Rightarrow> Point \<Rightarrow> Scalar \<Rightarrow> nat \<Rightarrow> store" where
  "cv_line st img pt1 pt2 color thickness =
     st\<lparr>mem := (mem st)(data img :=
        (mem st (data img))\<lparr>marks := marks (mem st (data img)) @ [Line pt1 pt2 color thickness]\<rparr>)\<rparr>"

definition putText ::
  "store \<Rightarrow> Mat \<Rightarrow> string \<Rightarrow> Point \<Rightarrow> real \<Rightarrow> Scalar \<Rightarrow> nat \<Rightarrow> store" where
  "putText st img txt org fontScale color thickness =
     st\<lparr>mem := (mem st)(data img :=
        (mem st (data img))\<lparr>marks := marks (mem st (data img))
           @ [PutText txt org fontScale color thickness]\<rparr>)\<rparr>"

subsection \<open>dlib values\<close>

text \<open>\<^verbatim>\<open>dlib::point\<close> (two \<^verbatim>\<open>long\<close> coordinates), \<^verbatim>\<open>dlib::rectangle\<close> and
  \<^verbatim>\<open>dlib::full_object_detection\<close>.\<close>

type_synonym dpoint = "int \<times> int"
type_synonym rectangle = "int \<times> int \<times> int \<times> int"

record full_object_detection =
  rect :: rectangle
  parts :: "dpoint list"

text \<open>\<^verbatim>\<open>inline Point toCv(const dlib::point& p)\<close>: \<^verbatim>\<open>long\<close> narrowed to \<^verbatim>\<open>int\<close>.\<close>

definition toCv :: "dpoint \<Rightarrow> Point" where
  "toCv p = PointT (signed_take_bit 31 (fst p)) (signed_take_bit 31 (snd p))"

text \<open>The conversion \<^verbatim>\<open>Point\<close> to \<^verbatim>\<open>Point2f\<close> (at the return of \<^verbatim>\<open>coordsOf\<close>).\<close>

definition toPoint2f :: "Point \<Rightarrow> Point2f" where
  "toPoint2f p = PointT (of_int (xc p)) (of_int (yc p))"

text \<open>
  The conversion \<^verbatim>\<open>Point2f\<close> to \<^verbatim>\<open>Point\<close> (at the calls of \<^verbatim>\<open>cv::line\<close> and
  \<^verbatim>\<open>cv::putText\<close>): OpenCV's \<^verbatim>\<open>saturate_cast<int>(float)\<close>, which is \<^verbatim>\<open>cvRound\<close>,
  rounding to the nearest integer, halves to the even one.
\<close>

definition cvRound :: "real \<Rightarrow> int" where
  "cvRound v =
     (let f = \<lfloor>v\<rfloor>; d = v - of_int f
      in if d < 1 / 2 then f else if 1 / 2 < d then f + 1 else if even f then f else f + 1)"

definition toPoint :: "Point2f \<Rightarrow> Point" where
  "toPoint p = PointT (cvRound (xc p)) (cvRound (yc p))"

subsection \<open>The header's constants and the external calls\<close>

text \<open>The members of \<^verbatim>\<open>enum FACIAL_FEATURE\<close> that the source file uses.\<close>

datatype FACIAL_FEATURE =
    SELLION | RIGHT_EYE | LEFT_EYE | RIGHT_SIDE | LEFT_SIDE | MENTON | NOSE
  | MOUTH_CENTER_TOP | MOUTH_CENTER_BOTTOM

datatype SolvePnPMethod = SOLVEPNP_ITERATIVE | SOLVEPNP_EPNP | SOLVEPNP_P3P

text \<open>
  What the source file takes from elsewhere.
  \<^item> \<open>feature_index\<close>: the numeric values of \<^verbatim>\<open>enum FACIAL_FEATURE\<close>, and the eight
    \<^verbatim>\<open>P3D_...\<close> points: declared in \<^verbatim>\<open>head_pose_estimation.hpp\<close>.
  \<^item> \<open>detector\<close>, \<open>pose_model\<close>: dlib's face detector and shape predictor, applied to an
    image given by its rows, columns and buffer contents.
  \<^item> \<open>solvePnP\<close>: \<^verbatim>\<open>cv::solvePnP(objectPoints, imagePoints, cameraMatrix, distCoeffs,
    rvec, tvec, useExtrinsicGuess, flags)\<close>; it takes the initial \<open>rvec\<close>, \<open>tvec\<close> and
    returns the solved ones.
  \<^item> \<open>Rodrigues_vec\<close>, \<open>Rodrigues_mat\<close>: \<^verbatim>\<open>cv::Rodrigues\<close> from a rotation vector to a
    matrix and from a matrix to a rotation vector.
  \<^item> \<open>projectPoints\<close>: \<^verbatim>\<open>cv::projectPoints(objectPoints, rvec, tvec, cameraMatrix,
    distCoeffs, imagePoints)\<close>, which projects each object point on its own; the parameter
    is the projection of one point.
  The external calls are taken to return.
\<close>

record externals =
  feature_index :: "FACIAL_FEATURE \<Rightarrow> nat"
  P3D_SELLION :: Point3f
  P3D_RIGHT_EYE :: Point3f
  P3D_LEFT_EYE :: Point3f
  P3D_RIGHT_EAR :: Point3f
  P3D_LEFT_EAR :: Point3f
  P3D_MENTON :: Point3f
  P3D_NOSE :: Point3f
  P3D_STOMMION :: Point3f
  detector :: "int \<Rightarrow> int \<Rightarrow> canvas \<Rightarrow> rectangle list"
  pose_model :: "int \<Rightarrow> int \<Rightarrow> canvas \<Rightarrow> rectangle \<Rightarrow> full_object_detection"
  solvePnP :: "Point3f list \<Rightarrow> Point2f list \<Rightarrow> Matx33 \<Rightarrow> real list \<Rightarrow> Vec3d \<Rightarrow> Vec3d
                 \<Rightarrow> bool \<Rightarrow> SolvePnPMethod \<Rightarrow> Vec3d \<times> Vec3d"
  Rodrigues_vec :: "Vec3d \<Rightarrow> Matx33"
  Rodrigues_mat :: "Matx33 \<Rightarrow> Vec3d"
  projectPoints :: "Vec3d \<Rightarrow> Vec3d \<Rightarrow> Matx33 \<Rightarrow> real list \<Rightarrow> Point3f \<Rightarrow> Point2f"

subsection \<open>The estimator\<close>

text \<open>
  The data members of \<^verbatim>\<open>class HeadPoseEstimation\<close> that the source file reads or writes.
  \<open>current_image\<close> is \<open>None\<close> for the default-constructed \<^verbatim>\<open>cv_image\<close>.
\<close>

record HeadPoseEstimation =
  focalLength :: real
  opticalCenterX :: real
  opticalCenterY :: real
  current_image :: "Mat option"
  faces :: "rectangle list"
  shapes :: "full_object_detection list"

text \<open>The constructor; loading the two models is part of \<open>externals\<close>.\<close>

definition HeadPoseEstimation_init :: "real \<Rightarrow> HeadPoseEstimation" where
  "HeadPoseEstimation_init fl =
     \<lparr>focalLength = fl, opticalCenterX = - 1, opticalCenterY = - 1,
      current_image = None, faces = [], shapes = []\<rparr>"

text \<open>The inner loop of \<^verbatim>\<open>update\<close>: the 68 parts of one shape, converted.\<close>

definition features_of :: "full_object_detection \<Rightarrow> fault + Point list" where
  "features_of d = mapF (\<lambda>i. bindF (vec_at (parts d) i) (\<lambda>p. Inr (toCv p))) [0..<68]"

text \<open>
  \<^verbatim>\<open>std::vector<std::vector<Point>> update(cv::InputArray _image)\<close>. The image is read
  through the store, which \<^verbatim>\<open>update\<close> does not write.
\<close>

definition update ::
  "externals \<Rightarrow> store \<Rightarrow> HeadPoseEstimation \<Rightarrow> Mat
     \<Rightarrow> fault + (Point list list \<times> HeadPoseEstimation)" where
  "update ext st s img =
     (let s1 = (if opticalCenterX s = - 1
                then s\<lparr>opticalCenterX := of_int (cols img sdiv 2),
                       opticalCenterY := of_int (rows img sdiv 2)\<rparr>
                else s);
          s2 = s1\<lparr>current_image := Some img\<rparr>;
          s3 = s2\<lparr>faces := detector ext (rows img) (cols img) (mem st (data img))\<rparr>;
          s4 = s3\<lparr>shapes :=
                  map (pose_model ext (rows img) (cols img) (mem st (data img))) (faces s3)\<rparr>
      in bindF (mapF features_of (shapes s4)) (\<lambda>all_features. Inr (all_features, s4)))"

text \<open>\<^verbatim>\<open>Point2f coordsOf(size_t face_idx, FACIAL_FEATURE feature) const\<close>.\<close>

definition coordsOf ::
  "externals \<Rightarrow> HeadPoseEstimation \<Rightarrow> nat \<Rightarrow> FACIAL_FEATURE \<Rightarrow> fault + Point2f" where
  "coordsOf ext s face_idx feature =
     bindF (vec_at (shapes s) face_idx) (\<lambda>d.
     bindF (vec_at (parts d) (feature_index ext feature)) (\<lambda>p.
     Inr (toPoint2f (toCv p))))"

text \<open>The camera matrix \<^verbatim>\<open>projection\<close>, built alike in \<^verbatim>\<open>pose\<close> and \<^verbatim>\<open>drawPose\<close>.\<close>

definition projection_of :: "HeadPoseEstimation \<Rightarrow> Matx33" where
  "projection_of s =
     ((focalLength s, 0, opticalCenterX s),
      (0, focalLength s, opticalCenterY s),
      (0, 0, 1))"

text \<open>The vector \<^verbatim>\<open>head_points\<close>, built alike in \<^verbatim>\<open>pose\<close> and \<^verbatim>\<open>drawPose\<close>.\<close>

definition head_points :: "externals \<Rightarrow> Point3f list" where
  "head_points ext =
     [P3D_SELLION ext, P3D_RIGHT_EYE ext, P3D_LEFT_EYE ext, P3D_RIGHT_EAR ext,
      P3D_LEFT_EAR ext, P3D_MENTON ext, P3D_NOSE ext, P3D_STOMMION ext]"

text \<open>The vector \<^verbatim>\<open>detected_points\<close> of \<^verbatim>\<open>pose\<close> (lines 103 to 114).\<close>

definition detected_points ::
  "externals \<Rightarrow> HeadPoseEstimation \<Rightarrow> nat \<Rightarrow> fault + Point2f list" where
  "detected_points ext s face_idx =
     bindF (coordsOf ext s face_idx SELLION) (\<lambda>q0.
     bindF (coordsOf ext s face_idx RIGHT_EYE) (\<lambda>q1.
     bindF (coordsOf ext s face_idx LEFT_EYE) (\<lambda>q2.
     bindF (coordsOf ext s face_idx RIGHT_SIDE) (\<lambda>q3.
     bindF (coordsOf ext s face_idx LEFT_SIDE) (\<lambda>q4.
     bindF (coordsOf ext s face_idx MENTON) (\<lambda>q5.
     bindF (coordsOf ext s face_idx NOSE) (\<lambda>q6.
     bindF (coordsOf ext s face_idx MOUTH_CENTER_TOP) (\<lambda>top.
     bindF (coordsOf ext s face_idx MOUTH_CENTER_BOTTOM) (\<lambda>bottom.
     let stomion = pt_scale (pt_add top bottom) (1 / 2)
     in Inr [q0, q1, q2, q3, q4, q5, q6, stomion])))))))))"

text \<open>The initial values of \<^verbatim>\<open>tvec\<close> and \<^verbatim>\<open>rvec\<close> in \<^verbatim>\<open>pose\<close>.\<close>

definition tvec_init :: Vec3d where
  "tvec_init = (0, 0, 1000)"

definition rvec_init :: Vec3d where
  "rvec_init = (12 / 10, 12 / 10, - (12 / 10))"

text \<open>The initialiser of \<^verbatim>\<open>head_pose pose = { ... }\<close> (lines 136 to 141).\<close>

definition pose_matrix :: "Matx33 \<Rightarrow> Vec3d \<Rightarrow> head_pose" where
  "pose_matrix rotation tvec =
     (case rotation of ((r00, r01, r02), (r10, r11, r12), (r20, r21, r22)) \<Rightarrow>
      case tvec of (t0, t1, t2) \<Rightarrow>
        ((r00, r01, r02, t0 / 1000),
         (r10, r11, r12, t1 / 1000),
         (r20, r21, r22, t2 / 1000),
         (0, 0, 0, 1)))"

text \<open>\<^verbatim>\<open>head_pose pose(size_t face_idx) const\<close>.\<close>

definition pose :: "externals \<Rightarrow> HeadPoseEstimation \<Rightarrow> nat \<Rightarrow> fault + head_pose" where
  "pose ext s face_idx =
     (let projection = projection_of s;
          head_pts = head_points ext
      in bindF (detected_points ext s face_idx) (\<lambda>detected.
         let tvec = tvec_init;
             rvec = rvec_init;
             solved = solvePnP ext head_pts detected projection [] rvec tvec True
                        SOLVEPNP_ITERATIVE;
             rotation = Rodrigues_vec ext (fst solved)
         in Inr (pose_matrix rotation (snd solved))))"

text \<open>\<^verbatim>\<open>std::vector<head_pose> poses() const\<close>: the loop over \<^verbatim>\<open>i < faces.size()\<close>.\<close>

definition poses :: "externals \<Rightarrow> HeadPoseEstimation \<Rightarrow> fault + head_pose list" where
  "poses ext s = mapF (pose ext s) [0..<length (faces s)]"

subsection \<open>Drawing\<close>

definition line_color :: Scalar where
  "line_color = (0, 128, 128)"

definition x_axis_color :: Scalar where
  "x_axis_color = (255, 0, 0)"

definition y_axis_color :: Scalar where
  "y_axis_color = (0, 255, 0)"

definition z_axis_color :: Scalar where
  "z_axis_color = (0, 0, 255)"

definition text_color :: Scalar where
  "text_color = (0, 0, 255)"

text \<open>
  One loop of \<^verbatim>\<open>drawFeatures\<close>,
  \<^verbatim>\<open>for (i = lo; i <= hi; ++i) cv::line(result, feature_points[i], feature_points[i-1], ...)\<close>,
  over the list of its indices.
\<close>

fun line_loop :: "Point list \<Rightarrow> nat list \<Rightarrow> Mat \<Rightarrow> store \<Rightarrow> fault + store" where
  "line_loop feature_points [] result st = Inr st"
| "line_loop feature_points (i # is) result st =
     bindF (vec_at feature_points i) (\<lambda>a.
     bindF (vec_at feature_points (i - 1)) (\<lambda>b.
     line_loop feature_points is result (cv_line st result a b line_color 2)))"

text \<open>A single \<^verbatim>\<open>cv::line(result, feature_points[i], feature_points[j], ...)\<close>.\<close>

definition line_between :: "Point list \<Rightarrow> nat \<Rightarrow> nat \<Rightarrow> Mat \<Rightarrow> store \<Rightarrow> fault + store" where
  "line_between feature_points i j result st =
     bindF (vec_at feature_points i) (\<lambda>a.
     bindF (vec_at feature_points j) (\<lambda>b.
     Inr (cv_line st result a b line_color 2)))"

text \<open>The body of the loop over \<open>j\<close> in \<^verbatim>\<open>drawFeatures\<close>: the polylines of one face.\<close>

definition drawFeatures_face :: "Point list \<Rightarrow> Mat \<Rightarrow> store \<Rightarrow> fault + store" where
  "drawFeatures_face feature_points result st =
     bindF (line_loop feature_points [1..<17] result st) (\<lambda>st.
     bindF (line_loop feature_points [28..<31] result st) (\<lambda>st.
     bindF (line_loop feature_points [18..<22] result st) (\<lambda>st.
     bindF (line_loop feature_points [23..<27] result st) (\<lambda>st.
     bindF (line_loop feature_points [31..<36] result st) (\<lambda>st.
     bindF (line_between feature_points 30 35 result st) (\<lambda>st.
     bindF (line_loop feature_points [37..<42] result st) (\<lambda>st.
     bindF (line_between feature_points 36 41 result st) (\<lambda>st.
     bindF (line_loop feature_points [43..<48] result st) (\<lambda>st.
     bindF (line_between feature_points 42 47 result st) (\<lambda>st.
     bindF (line_loop feature_points [49..<60] result st) (\<lambda>st.
     bindF (line_between feature_points 48 59 result st) (\<lambda>st.
     bindF (line_loop feature_points [61..<68] result st) (\<lambda>st.
     line_between feature_points 60 67 result st)))))))))))))"

text \<open>\<^verbatim>\<open>void drawFeatures(const std::vector<std::vector<Point>>&, Mat& result) const\<close>.\<close>

fun drawFeatures :: "Point list list \<Rightarrow> Mat \<Rightarrow> store \<Rightarrow> fault + store" where
  "drawFeatures [] result st = Inr st"
| "drawFeatures (feature_points # rest) result st =
     bindF (drawFeatures_face feature_points result st) (drawFeatures rest result)"

text \<open>
  \<^verbatim>\<open>std::to_string(int)\<close> and the conversion \<^verbatim>\<open>int(double)\<close>, which truncates. The
  conversion of a value that does not fit \<^verbatim>\<open>int\<close> is undefined in C++; it is taken as the
  x86 conversion instruction does it, with the result \<open>- 2 ^ 31\<close>.
\<close>

fun digits_of :: "nat \<Rightarrow> string" where
  "digits_of n =
     (if n < 10 then [char_of (48 + n)]
      else digits_of (n div 10) @ [char_of (48 + n mod 10)])"

declare digits_of.simps [simp del]

definition to_string :: "int \<Rightarrow> string" where
  "to_string i = (if i < 0 then CHR ''-'' # digits_of (nat (- i)) else digits_of (nat i))"

fun int_of_double :: "fp \<Rightarrow> int" where
  "int_of_double (Finite v) =
     (let k = (if 0 \<le> v then \<lfloor>v\<rfloor> else \<lceil>v\<rceil>)
      in if - (2 ^ 31) \<le> k \<and> k < 2 ^ 31 then k else - (2 ^ 31))"
| "int_of_double a = - (2 ^ 31)"

text \<open>The slices \<^verbatim>\<open>Mat(detected_pose)(Range(0, 3), Range(0, 3))\<close> and
  \<^verbatim>\<open>Mat(detected_pose).col(3).rowRange(0, 3)\<close>, and the bottom row.\<close>

definition rotation_block :: "head_pose \<Rightarrow> Matx33" where
  "rotation_block m =
     (case m of ((a0, a1, a2, a3), (b0, b1, b2, b3), (c0, c1, c2, c3), bottom) \<Rightarrow>
        ((a0, a1, a2), (b0, b1, b2), (c0, c1, c2)))"

definition translation_col :: "head_pose \<Rightarrow> Vec3d" where
  "translation_col m =
     (case m of ((a0, a1, a2, a3), (b0, b1, b2, b3), (c0, c1, c2, c3), bottom) \<Rightarrow>
        (a3, b3, c3))"

definition bottom_row :: "head_pose \<Rightarrow> Vec4d" where
  "bottom_row m = (case m of (a, b, c, bottom) \<Rightarrow> bottom)"

text \<open>
  The text of the label in \<^verbatim>\<open>drawPose\<close>; each product \<^verbatim>\<open>detected_pose(i,3) * 100\<close> is a
  \<^verbatim>\<open>double\<close> multiplication.
\<close>

definition pose_label :: "head_pose \<Rightarrow> string" where
  "pose_label detected_pose =
     (case translation_col detected_pose of (t0, t1, t2) \<Rightarrow>
        ''('' @ to_string (int_of_double (rnd64 (t0 * 100))) @ ''cm, ''
          @ to_string (int_of_double (rnd64 (t1 * 100))) @ ''cm, ''
          @ to_string (int_of_double (rnd64 (t2 * 100))) @ ''cm)'')"

text \<open>
  \<^verbatim>\<open>void drawPose(const head_pose& detected_pose, size_t face_idx, cv::Mat& result) const\<close>.
\<close>

definition drawPose ::
  "externals \<Rightarrow> HeadPoseEstimation \<Rightarrow> head_pose \<Rightarrow> nat \<Rightarrow> Mat \<Rightarrow> store \<Rightarrow> fault + store" where
  "drawPose ext s detected_pose face_idx result st =
     (let rotation = rotation_block detected_pose;
          rvec = Rodrigues_mat ext rotation;
          tvec = translation_col detected_pose;
          projection = projection_of s;
          axes = [Point3f 0 0 0, Point3f 50 0 0, Point3f 0 50 0, Point3f 0 0 50];
          projected_axes = map (projectPoints ext rvec tvec projection []) axes;
          st1 = cv_line st result (toPoint (projected_axes ! 0)) (toPoint (projected_axes ! 3))
                  x_axis_color 2;
          st2 = cv_line st1 result (toPoint (projected_axes ! 0)) (toPoint (projected_axes ! 2))
                  y_axis_color 2;
          st3 = cv_line st2 result (toPoint (projected_axes ! 0)) (toPoint (projected_axes ! 1))
                  z_axis_color 2
      in bindF (coordsOf ext s face_idx SELLION) (\<lambda>org.
         Inr (putText st3 result (pose_label detected_pose) (toPoint org) (1 / 2)
                text_color 2)))"

text \<open>The loop of \<^verbatim>\<open>drawDetections\<close> over the poses, from index \<open>i\<close> on.\<close>

fun drawPose_loop ::
  "externals \<Rightarrow> HeadPoseEstimation \<Rightarrow> head_pose list \<Rightarrow> nat \<Rightarrow> Mat \<Rightarrow> store
     \<Rightarrow> fault + store" where
  "drawPose_loop ext s [] i result st = Inr st"
| "drawPose_loop ext s (p # ps) i result st =
     bindF (drawPose ext s p i result st) (drawPose_loop ext s ps (Suc i) result)"

text \<open>
  \<^verbatim>\<open>Mat drawDetections(const cv::Mat& original_image, const
  std::vector<std::vector<Point>>& detected_features, const std::vector<head_pose>&
  detected_poses)\<close>. It returns the header of the result and the store after the call.
\<close>

definition drawDetections ::
  "externals \<Rightarrow> HeadPoseEstimation \<Rightarrow> Mat \<Rightarrow> Point list list \<Rightarrow> head_pose list \<Rightarrow> store
     \<Rightarrow> fault + (Mat \<times> store)" where
  "drawDetections ext s original_image detected_features detected_poses st =
     (case clone original_image st of (result, st1) \<Rightarrow>
        bindF (if detected_features \<noteq> [] then drawFeatures detected_features result st1
               else Inr st1) (\<lambda>st2.
        bindF (drawPose_loop ext s detected_poses 0 result st2) (\<lambda>st3.
        Inr (result, st3))))"

subsection \<open>Sequences of calls\<close>

text \<open>
  The public operations of the class, and a client that calls them one after the other on
  one estimator and one store. \<^verbatim>\<open>pose\<close> and \<^verbatim>\<open>poses\<close> are \<^verbatim>\<open>const\<close>;
  \<^verbatim>\<open>drawDetections\<close> assigns to no data member.
\<close>

datatype call =
    Update Mat
  | Pose nat
  | Poses
  | DrawDetections Mat "Point list list" "head_pose list"

fun exec ::
  "externals \<Rightarrow> call \<Rightarrow> store \<times> HeadPoseEstimation \<Rightarrow> fault + (store \<times> HeadPoseEstimation)" where
  "exec ext (Update img) (st, s) = bindF (update ext st s img) (\<lambda>r. Inr (st, snd r))"
| "exec ext (Pose i) (st, s) = bindF (pose ext s i) (\<lambda>r. Inr (st, s))"
| "exec ext Poses (st, s) = bindF (poses ext s) (\<lambda>r. Inr (st, s))"
| "exec ext (DrawDetections img fs ps) (st, s) =
     bindF (drawDetections ext s img fs ps st) (\<lambda>r. Inr (snd r, s))"

fun run ::
  "externals \<Rightarrow> call list \<Rightarrow> store \<times> HeadPoseEstimation
     \<Rightarrow> fault + (store \<times> HeadPoseEstimation)" where
  "run ext [] c = Inr c"
| "run ext (x # xs) c = bindF (exec ext x c) (run ext xs)"

fun is_Update :: "call \<Rightarrow> bool" where
  "is_Update (Update img) = True"
| "is_Update x = False"

subsection \<open>Notions used in the statements\<close>

text \<open>The features that \<^verbatim>\<open>pose\<close> reads.\<close>

definition used_features :: "FACIAL_FEATURE list" where
  "used_features =
     [SELLION, RIGHT_EYE, LEFT_EYE, RIGHT_SIDE, LEFT_SIDE, MENTON, NOSE,
      MOUTH_CENTER_TOP, MOUTH_CENTER_BOTTOM]"

text \<open>
  Face \<open>face_idx\<close> has stored landmarks: it is one of the stored shapes, and that shape has
  a part for every feature index.
\<close>

definition landmarks_stored :: "externals \<Rightarrow> HeadPoseEstimation \<Rightarrow> nat \<Rightarrow> bool" where
  "landmarks_stored ext s face_idx \<longleftrightarrow>
     face_idx < length (shapes s) \<and>
     list_all (\<lambda>f. feature_index ext f < length (parts (shapes s ! face_idx))) used_features"

text \<open>The stored landmark of a face with stored landmarks, as \<^verbatim>\<open>coordsOf\<close> returns it.\<close>

definition landmark_at ::
  "externals \<Rightarrow> HeadPoseEstimation \<Rightarrow> nat \<Rightarrow> FACIAL_FEATURE \<Rightarrow> Point2f" where
  "landmark_at ext s face_idx feature =
     toPoint2f (toCv (parts (shapes s ! face_idx) ! feature_index ext feature))"

text \<open>The contents of the image that \<^verbatim>\<open>drawDetections\<close> returns.\<close>

definition returned_image :: "fault + (Mat \<times> store) \<Rightarrow> fault + canvas" where
  "returned_image r = bindF r (\<lambda>x. Inr (mem (snd x) (data (fst x))))"

text \<open>The store after the drawing calls \<open>cmds\<close> on the buffer at address \<open>a\<close>.\<close>

definition append_marks :: "nat \<Rightarrow> draw_cmd list \<Rightarrow> store \<Rightarrow> store" where
  "append_marks a cmds st =
     st\<lparr>mem := (mem st)(a := (mem st a)\<lparr>marks := marks (mem st a) @ cmds\<rparr>)\<rparr>"

text \<open>The label that \<^verbatim>\<open>drawPose\<close> writes for the pose \<open>p\<close> of face \<open>i\<close>.\<close>

definition label_of :: "externals \<Rightarrow> HeadPoseEstimation \<Rightarrow> head_pose \<Rightarrow> nat \<Rightarrow> draw_cmd" where
  "label_of ext s p i =
     PutText (pose_label p) (toCv (parts (shapes s ! i) ! feature_index ext SELLION))
       (1 / 2) text_color 2"

fun is_PutText :: "draw_cmd \<Rightarrow> bool" where
  "is_PutText (PutText txt org fontScale color thickness) = True"
| "is_PutText (Line pt1 pt2 color thickness) = False"

text \<open>
  The value of a finite floating-point number, and the passage between points with
  floating-point and with real coordinates.
\<close>

definition val :: "fp \<Rightarrow> real" where
  "val a = (case a of Finite v \<Rightarrow> v | PInf \<Rightarrow> 0 | NInf \<Rightarrow> 0 | NaN \<Rightarrow> 0)"

definition pt_val :: "Point2f_ieee \<Rightarrow> Point2f" where
  "pt_val p = PointT (val (xc p)) (val (yc p))"

definition pt_fin :: "Point2f \<Rightarrow> Point2f_ieee" where
  "pt_fin q = PointT (Finite (xc q)) (Finite (yc q))"

text \<open>
  The cross product of the direction vectors of the lines through \<open>a, b\<close> and through
  \<open>c, d\<close>, in exact arithmetic.
\<close>

definition exact_cross :: "Point2f \<Rightarrow> Point2f \<Rightarrow> Point2f \<Rightarrow> Point2f \<Rightarrow> real" where
  "exact_cross a b c d =
     (let d1 = pt_sub b a; d2 = pt_sub d c in xc d1 * yc d2 - yc d1 * xc d2)"

text \<open>The point \<open>q\<close> is on the line through \<open>a\<close> and \<open>b\<close>.\<close>

definition lies_on :: "Point2f \<Rightarrow> Point2f \<Rightarrow> Point2f \<Rightarrow> bool" where
  "lies_on a b q \<longleftrightarrow> (xc q - xc a) * (yc b - yc a) = (yc q - yc a) * (xc b - xc a)"

text \<open>
  No operation of \<^verbatim>\<open>intersection\<close> rounds at the given arguments: the arguments are finite,
  and the three differences, the value of \<^verbatim>\<open>cross\<close>, the numerator and the quotient of
  \<^verbatim>\<open>t1\<close>, the two products of \<^verbatim>\<open>d1 * t1\<close> and the two sums of \<^verbatim>\<open>o1 + d1 * t1\<close> are the
  exact results.
\<close>

definition unrounded ::
  "Point2f_ieee \<Rightarrow> Point2f_ieee \<Rightarrow> Point2f_ieee \<Rightarrow> Point2f_ieee \<Rightarrow> bool" where
  "unrounded o1 p1 o2 p2 \<longleftrightarrow>
     (let a = pt_val o1; b = pt_val p1; c = pt_val o2; d = pt_val p2;
          x = pt_sub c a; d1 = pt_sub b a; d2 = pt_sub d c;
          cross = xc d1 * yc d2 - yc d1 * xc d2;
          num = xc x * yc d2 - yc x * xc d2;
          t1 = num / cross
      in o1 = pt_fin a \<and> p1 = pt_fin b \<and> o2 = pt_fin c \<and> p2 = pt_fin d \<and>
         pt_sub32 o2 o1 = pt_fin x \<and>
         pt_sub32 p1 o1 = pt_fin d1 \<and>
         pt_sub32 p2 o2 = pt_fin d2 \<and>
         cross32 (pt_sub32 p1 o1) (pt_sub32 p2 o2) = Finite cross \<and>
         cross32 (pt_sub32 o2 o1) (pt_sub32 p2 o2) = Finite num \<and>
         fdiv rnd32 (Finite num) (Finite cross) = Finite t1 \<and>
         pt_scale64 (pt_sub32 p1 o1) (Finite t1) = pt_fin (pt_scale d1 t1) \<and>
         pt_add32 o1 (pt_fin (pt_scale d1 t1)) = pt_fin (pt_add a (pt_scale d1 t1)))"

text \<open>
  A solver whose result shows the initial guess it was given, and a \<^verbatim>\<open>Rodrigues\<close> whose
  result shows its argument, in place of those of the sample values below.
\<close>

definition probe_solvePnP ::
  "Point3f list \<Rightarrow> Point2f list \<Rightarrow> Matx33 \<Rightarrow> real list \<Rightarrow> Vec3d \<Rightarrow> Vec3d
     \<Rightarrow> bool \<Rightarrow> SolvePnPMethod \<Rightarrow> Vec3d \<times> Vec3d" where
  "probe_solvePnP object_points image_points camera coeffs rvec tvec guess method =
     (if guess \<and> method = SOLVEPNP_ITERATIVE \<and> coeffs = [] \<and> length image_points = 8
      then (case rvec of (r0, r1, r2) \<Rightarrow> case tvec of (t0, t1, t2) \<Rightarrow>
              ((r0 + 1, r1, r2), (t0, t1, 2 * t2)))
      else ((0, 0, 0), (0, 0, 0)))"

definition probe_Rodrigues :: "Vec3d \<Rightarrow> Matx33" where
  "probe_Rodrigues v = (v, (0, 0, 0), (0, 0, 0))"

subsection \<open>Sample values\<close>

text \<open>
  Sample values for the parameters, for evaluating the definitions on concrete inputs:
  feature indices of the 68-point convention, the points of a head model, a detector that
  reports one face per stored base value, a predictor that returns 68 parts, a solver that
  returns its initial guess, and an orthographic projection.
\<close>

definition sample_shape :: "rectangle \<Rightarrow> full_object_detection" where
  "sample_shape r = \<lparr>rect = r, parts = map (\<lambda>i. (fst r + int i, 2 * int i)) [0..<68]\<rparr>"

definition sample_externals :: externals where
  "sample_externals =
     \<lparr>feature_index = (\<lambda>f. case f of
          SELLION \<Rightarrow> 30 | RIGHT_EYE \<Rightarrow> 36 | LEFT_EYE \<Rightarrow> 45 | RIGHT_SIDE \<Rightarrow> 0
        | LEFT_SIDE \<Rightarrow> 16 | MENTON \<Rightarrow> 8 | NOSE \<Rightarrow> 33
        | MOUTH_CENTER_TOP \<Rightarrow> 62 | MOUTH_CENTER_BOTTOM \<Rightarrow> 66),
      P3D_SELLION = Point3f 0 0 0,
      P3D_RIGHT_EYE = Point3f (- 20) (- 65) (- 5),
      P3D_LEFT_EYE = Point3f (- 20) 65 (- 5),
      P3D_RIGHT_EAR = Point3f (- 100) (- 77) (- 6),
      P3D_LEFT_EAR = Point3f (- 100) 77 (- 6),
      P3D_MENTON = Point3f 0 0 (- 133),
      P3D_NOSE = Point3f 21 0 (- 48),
      P3D_STOMMION = Point3f 10 0 (- 75),
      detector = (\<lambda>r c img. map (\<lambda>k. (10 * int k, 0, 0, 0)) [0..<length (base img)]),
      pose_model = (\<lambda>r c img face. sample_shape face),
      solvePnP = (\<lambda>object_points image_points camera dist rvec tvec guess method. (rvec, tvec)),
      Rodrigues_vec = (\<lambda>v. ((1, 0, 0), (0, 1, 0), (0, 0, 1))),
      Rodrigues_mat = (\<lambda>m. (0, 0, 0)),
      projectPoints = (\<lambda>rvec tvec camera dist p. case p of Point3f x y z \<Rightarrow> PointT x y)\<rparr>"

definition sample_store :: store where
  "sample_store = \<lparr>mem = (\<lambda>a. \<lparr>base = [7], marks = []\<rparr>), brk = 1\<rparr>"

definition sample_image :: Mat where
  "sample_image = \<lparr>rows = 100, cols = 101, data = 0\<rparr>"

text \<open>An estimator that holds one shape, whose first part is at \<open>x\<close>.\<close>

definition sample_estimator :: "int \<Rightarrow> HeadPoseEstimation" where
  "sample_estimator x =
     \<lparr>focalLength = 500, opticalCenterX = 50, opticalCenterY = 50,
      current_image = Some sample_image, faces = [(x, 0, 0, 0)],
      shapes = [sample_shape (x, 0, 0, 0)]\<rparr>"

section \<open>Properties\<close>

subsection \<open>Rounding\<close>

lemma exp_search_bounds:
  "j0 \<le> exp_search n j0 s \<and> exp_search n j0 s \<le> j0 + n \<and>
   (exp_search n j0 s < j0 + n \<longrightarrow> s < 2 ^ Suc (exp_search n j0 s)) \<and>
   (j0 < exp_search n j0 s \<longrightarrow> 2 ^ exp_search n j0 s \<le> s)"
proof (induction n arbitrary: j0)
  case 0
  then show ?case by simp
next
  case (Suc n)
  show ?case
  proof (cases "s < 2 ^ Suc j0")
    case True
    then show ?thesis by simp
  next
    case False
    note ih = Suc.IH [of "Suc j0"]
    have e: "exp_search (Suc n) j0 s = exp_search n (Suc j0) s"
      using False by simp
    have low: "2 ^ exp_search n (Suc j0) s \<le> s"
    proof (cases "Suc j0 < exp_search n (Suc j0) s")
      case True
      then show ?thesis using ih by simp
    next
      case False
      then have "exp_search n (Suc j0) s = Suc j0"
        using ih by simp
      then show ?thesis
        using \<open>\<not> s < 2 ^ Suc j0\<close> by simp
    qed
    show ?thesis
      unfolding e using ih low by auto
  qed
qed

lemma exp_search_eq:
  assumes "k \<le> n" and "k = 0 \<or> 2 ^ k \<le> s" and "s < 2 ^ Suc k"
  shows "exp_search n 0 s = k"
proof -
  let ?j = "exp_search n 0 s"
  note b = exp_search_bounds [of 0 n s]
  have "\<not> ?j < k"
  proof
    assume l: "?j < k"
    then have "s < 2 ^ Suc ?j"
      using b assms(1) by simp
    also have "(2::real) ^ Suc ?j \<le> 2 ^ k"
      using l by (intro power_increasing) simp_all
    finally have "s < 2 ^ k" .
    moreover have "2 ^ k \<le> s"
      using assms(2) l by auto
    ultimately show False by simp
  qed
  moreover have "\<not> k < ?j"
  proof
    assume l: "k < ?j"
    then have "2 ^ ?j \<le> s"
      using b by simp
    moreover have "(2::real) ^ Suc k \<le> 2 ^ ?j"
      using l by (intro power_increasing) simp_all
    ultimately show False
      using assms(3) by simp
  qed
  ultimately show ?thesis by simp
qed

lemma rnd_eval:
  assumes "v \<noteq> 0" and "k \<le> 2 * bias + 2"
    and "k = 0 \<or> 2 ^ k \<le> \<bar>v\<bar> * 2 ^ bias" and "\<bar>v\<bar> * 2 ^ bias < 2 ^ Suc k"
  shows "rnd p bias v =
     (let m = nearest_even (\<bar>v\<bar> * 2 ^ (bias + p - 1) / 2 ^ k);
          y = of_int m * 2 ^ k / 2 ^ (bias + p - 1)
      in if 2 ^ (bias + 2) \<le> y then (if 0 < v then PInf else NInf)
         else Finite (if 0 < v then y else - y))"
  using assms(1) exp_search_eq [OF assms(2,3,4)] by (simp add: rnd_def Let_def)

lemma rnd_minus: "rnd p bias (- v) = fneg (rnd p bias v)"
  by (simp add: rnd_def Let_def)

lemma rnd_zero: "rnd p bias 0 = Finite 0"
  by (simp add: rnd_def)

text \<open>Values of the two roundings that the examples below need.\<close>

lemma rnd32_values:
  "rnd32 1 = Finite 1"
  "rnd32 2 = Finite 2"
  "rnd32 3 = Finite 3"
  "rnd32 4 = Finite 4"
  "rnd32 (1 / 2) = Finite (1 / 2)"
  "rnd32 4096 = Finite 4096"
  "rnd32 4097 = Finite 4097"
  "rnd32 4098 = Finite 4098"
  "rnd32 16785408 = Finite 16785408"
  "rnd32 16785409 = Finite 16785408"
  "rnd32 (2 / 3) = Finite (11184811 / 16777216)"
  "rnd32 (11184811 / 16777216) = Finite (11184811 / 16777216)"
  unfolding rnd32_def
  by (subst rnd_eval [where k = 126], simp_all add: nearest_even_def Let_def,
      subst rnd_eval [where k = 127], simp_all add: nearest_even_def Let_def,
      subst rnd_eval [where k = 127], simp_all add: nearest_even_def Let_def,
      subst rnd_eval [where k = 128], simp_all add: nearest_even_def Let_def,
      subst rnd_eval [where k = 125], simp_all add: nearest_even_def Let_def,
      subst rnd_eval [where k = 138], simp_all add: nearest_even_def Let_def,
      subst rnd_eval [where k = 138], simp_all add: nearest_even_def Let_def,
      subst rnd_eval [where k = 138], simp_all add: nearest_even_def Let_def,
      subst rnd_eval [where k = 150], simp_all add: nearest_even_def Let_def,
      subst rnd_eval [where k = 150], simp_all add: nearest_even_def Let_def,
      subst rnd_eval [where k = 125], simp_all add: nearest_even_def Let_def,
      subst rnd_eval [where k = 125], simp_all add: nearest_even_def Let_def)

lemma rnd64_values:
  "rnd64 100 = Finite 100"
  "rnd64 (1 / 2) = Finite (1 / 2)"
  "rnd64 (11184811 / 16777216) = Finite (11184811 / 16777216)"
  "rnd64 (1 / 10 ^ 8) = Finite (3022314549036573 / 2 ^ 78)"
  unfolding rnd64_def
  by (subst rnd_eval [where k = 1028], simp_all add: nearest_even_def Let_def,
      subst rnd_eval [where k = 1021], simp_all add: nearest_even_def Let_def,
      subst rnd_eval [where k = 1021], simp_all add: nearest_even_def Let_def,
      subst rnd_eval [where k = 995], simp_all add: nearest_even_def Let_def)

lemma EPS_value: "EPS = Finite (3022314549036573 / 2 ^ 78)"
  unfolding EPS_def by (rule rnd64_values)

subsection \<open>Faults and unchecked reads\<close>

lemma bindF_Inr [simp]: "bindF (Inr v) f = f v"
  by (simp add: bindF_def)

lemma bindF_Inl [simp]: "bindF (Inl e) f = Inl e"
  by (simp add: bindF_def)

lemma bindF_eq_Inr:
  "bindF m f = Inr y \<longleftrightarrow> (\<exists>v. m = Inr v \<and> f v = Inr y)"
  by (cases m) simp_all

lemma vec_at_in_range: "i < length xs \<Longrightarrow> vec_at xs i = Inr (xs ! i)"
  by (simp add: vec_at_def)

lemma vec_at_out_of_range: "length xs \<le> i \<Longrightarrow> vec_at xs i = Inl OutOfBoundsRead"
  by (simp add: vec_at_def)

lemma coordsOf_stored:
  assumes "landmarks_stored ext s face_idx"
  shows "coordsOf ext s face_idx f = Inr (landmark_at ext s face_idx f)"
proof -
  have "f \<in> set used_features"
    by (cases f) (simp_all add: used_features_def)
  with assms have "feature_index ext f < length (parts (shapes s ! face_idx))"
    by (simp add: landmarks_stored_def list_all_iff)
  moreover from assms have "face_idx < length (shapes s)"
    by (simp add: landmarks_stored_def)
  ultimately show ?thesis
    by (simp add: coordsOf_def landmark_at_def vec_at_in_range)
qed

lemma coordsOf_out_of_range:
  "length (shapes s) \<le> face_idx \<Longrightarrow> coordsOf ext s face_idx f = Inl OutOfBoundsRead"
  by (simp add: coordsOf_def vec_at_out_of_range)

lemma coordsOf_fault:
  "coordsOf ext s face_idx f = Inl e \<Longrightarrow> e = OutOfBoundsRead"
  by (auto simp: coordsOf_def vec_at_def bindF_def split: if_splits sum.splits)

lemma detected_points_stored:
  assumes "landmarks_stored ext s face_idx"
  shows "detected_points ext s face_idx =
    Inr [landmark_at ext s face_idx SELLION, landmark_at ext s face_idx RIGHT_EYE,
         landmark_at ext s face_idx LEFT_EYE, landmark_at ext s face_idx RIGHT_SIDE,
         landmark_at ext s face_idx LEFT_SIDE, landmark_at ext s face_idx MENTON,
         landmark_at ext s face_idx NOSE,
         pt_scale (pt_add (landmark_at ext s face_idx MOUTH_CENTER_TOP)
                          (landmark_at ext s face_idx MOUTH_CENTER_BOTTOM)) (1 / 2)]"
  by (simp add: detected_points_def coordsOf_stored [OF assms])

lemma detected_points_out_of_range:
  "length (shapes s) \<le> face_idx \<Longrightarrow> detected_points ext s face_idx = Inl OutOfBoundsRead"
  by (simp add: detected_points_def coordsOf_out_of_range)

lemma detected_points_fault:
  "detected_points ext s face_idx = Inl e \<Longrightarrow> e = OutOfBoundsRead"
  unfolding detected_points_def
  by (auto simp: bindF_def Let_def split: sum.splits dest: coordsOf_fault)

lemma pose_stored:
  assumes "detected_points ext s face_idx = Inr detected"
  shows "pose ext s face_idx =
     Inr (pose_matrix
       (Rodrigues_vec ext (fst (solvePnP ext (head_points ext) detected (projection_of s) []
           rvec_init tvec_init True SOLVEPNP_ITERATIVE)))
       (snd (solvePnP ext (head_points ext) detected (projection_of s) []
           rvec_init tvec_init True SOLVEPNP_ITERATIVE)))"
  by (simp add: pose_def assms Let_def)

lemma pose_fault:
  "pose ext s face_idx = Inl e \<Longrightarrow> e = OutOfBoundsRead"
  by (auto simp: pose_def Let_def bindF_def split: sum.splits dest: detected_points_fault)

lemma pose_beyond_shapes:
  "length (shapes s) \<le> face_idx \<Longrightarrow> pose ext s face_idx = Inl OutOfBoundsRead"
  by (simp add: pose_def Let_def detected_points_out_of_range)

lemma rotation_block_pose_matrix [simp]: "rotation_block (pose_matrix R t) = R"
  by (simp add: rotation_block_def pose_matrix_def split: prod.splits)

lemma translation_col_pose_matrix [simp]:
  "translation_col (pose_matrix R t) = (fst t / 1000, fst (snd t) / 1000, snd (snd t) / 1000)"
  by (simp add: translation_col_def pose_matrix_def split: prod.splits)

lemma bottom_row_pose_matrix [simp]: "bottom_row (pose_matrix R t) = (0, 0, 0, 1)"
  by (simp add: bottom_row_def pose_matrix_def split: prod.splits)

lemma sample_stored: "landmarks_stored sample_externals (sample_estimator x) 0"
  by (simp add: landmarks_stored_def sample_estimator_def sample_externals_def
      sample_shape_def used_features_def)


text \<open>
  C1. For every face index with stored landmarks, \<^verbatim>\<open>pose\<close> returns a 4x4 matrix whose
  top-left 3x3 block is what \<^verbatim>\<open>Rodrigues\<close> makes of the solved rotation vector, whose
  rightmost column holds in rows 0 to 2 the solved translation vector divided by 1000, and
  whose bottom row is \<open>[0, 0, 0, 1]\<close>. The solved vectors are those that \<^verbatim>\<open>solvePnP\<close>
  returns for the head points, the detected points of the face, the camera matrix and the
  initial guess.
\<close>

theorem pose_matrix_layout:
  assumes "landmarks_stored ext s face_idx"
  shows "\<exists>detected m.
     detected_points ext s face_idx = Inr detected \<and>
     pose ext s face_idx = Inr m \<and>
     (let solved = solvePnP ext (head_points ext) detected (projection_of s) []
                     (12 / 10, 12 / 10, - (12 / 10)) (0, 0, 1000) True SOLVEPNP_ITERATIVE;
          rvec = fst solved;
          tvec = snd solved
      in rotation_block m = Rodrigues_vec ext rvec \<and>
         translation_col m = (fst tvec / 1000, fst (snd tvec) / 1000, snd (snd tvec) / 1000) \<and>
         bottom_row m = (0, 0, 0, 1))"
proof -
  obtain detected where d: "detected_points ext s face_idx = Inr detected"
    using detected_points_stored [OF assms] by blast
  show ?thesis
    using d pose_stored [OF d]
    by (simp add: Let_def rvec_init_def tvec_init_def)
qed

lemma head_pose_blocks:
  fixes m :: head_pose
  assumes "rotation_block m = ((r00, r01, r02), (r10, r11, r12), (r20, r21, r22))"
    and "translation_col m = (t0, t1, t2)"
    and "bottom_row m = b"
  shows "m = ((r00, r01, r02, t0), (r10, r11, r12, t1), (r20, r21, r22, t2), b)"
  using assms
  by (auto simp: rotation_block_def translation_col_def bottom_row_def split: prod.splits)

theorem pose_matrix_layout_witness:
  "landmarks_stored sample_externals (sample_estimator 3) 0 \<and>
   pose sample_externals (sample_estimator 3) 0
     = Inr ((1, 0, 0, 0), (0, 1, 0, 0), (0, 0, 1, 1), (0, 0, 0, 1))"
proof -
  have st: "landmarks_stored sample_externals (sample_estimator 3) 0"
    by (rule sample_stored)
  obtain m where m: "pose sample_externals (sample_estimator 3) 0 = Inr m"
    and r: "rotation_block m = ((1, 0, 0), (0, 1, 0), (0, 0, 1))"
    and t: "translation_col m = (0, 0, 1)"
    and b: "bottom_row m = (0, 0, 0, 1)"
    using pose_matrix_layout [OF st]
    by (auto simp: Let_def sample_externals_def)
  show ?thesis
    using st m head_pose_blocks [OF r t b] by simp
qed


lemma midpoint_differs:
  fixes a b :: Point2f
  assumes "a \<noteq> b"
  shows "pt_scale (pt_add a b) (1 / 2) \<noteq> a \<and> pt_scale (pt_add a b) (1 / 2) \<noteq> b"
proof -
  obtain ax ay where a: "a = PointT ax ay" by (cases a)
  obtain bx by' where b: "b = PointT bx by'" by (cases b)
  from assms have "ax \<noteq> bx \<or> ay \<noteq> by'"
    by (simp add: a b)
  then show ?thesis
    by (auto simp: a b pt_scale_def pt_add_def)
qed

text \<open>
  C2. For every face with stored landmarks, the last of the eight 2-D points that
  \<^verbatim>\<open>pose\<close> hands to \<^verbatim>\<open>solvePnP\<close> is the coordinate-wise average of the landmarks
  \<open>MOUTH_CENTER_TOP\<close> and \<open>MOUTH_CENTER_BOTTOM\<close> of that face, and when those two
  landmarks are distinct it is neither of them.
\<close>

theorem stomion_is_midpoint:
  assumes "landmarks_stored ext s face_idx"
  shows "\<exists>top bottom detected.
     coordsOf ext s face_idx MOUTH_CENTER_TOP = Inr top \<and>
     coordsOf ext s face_idx MOUTH_CENTER_BOTTOM = Inr bottom \<and>
     detected_points ext s face_idx = Inr detected \<and>
     length detected = 8 \<and>
     detected ! 7 = PointT ((xc top + xc bottom) / 2) ((yc top + yc bottom) / 2) \<and>
     (top \<noteq> bottom \<longrightarrow> detected ! 7 \<noteq> top \<and> detected ! 7 \<noteq> bottom) \<and>
     pose ext s face_idx =
       Inr (pose_matrix
         (Rodrigues_vec ext (fst (solvePnP ext (head_points ext) detected (projection_of s) []
             (12 / 10, 12 / 10, - (12 / 10)) (0, 0, 1000) True SOLVEPNP_ITERATIVE)))
         (snd (solvePnP ext (head_points ext) detected (projection_of s) []
             (12 / 10, 12 / 10, - (12 / 10)) (0, 0, 1000) True SOLVEPNP_ITERATIVE)))"
proof -
  let ?top = "landmark_at ext s face_idx MOUTH_CENTER_TOP"
  let ?bottom = "landmark_at ext s face_idx MOUTH_CENTER_BOTTOM"
  let ?stomion = "pt_scale (pt_add ?top ?bottom) (1 / 2)"
  let ?detected = "[landmark_at ext s face_idx SELLION, landmark_at ext s face_idx RIGHT_EYE,
         landmark_at ext s face_idx LEFT_EYE, landmark_at ext s face_idx RIGHT_SIDE,
         landmark_at ext s face_idx LEFT_SIDE, landmark_at ext s face_idx MENTON,
         landmark_at ext s face_idx NOSE, ?stomion]"
  have d: "detected_points ext s face_idx = Inr ?detected"
    by (rule detected_points_stored [OF assms])
  have n: "?detected ! 7 = ?stomion"
    by (simp add: numeral_eq_Suc)
  have mid: "?stomion = PointT ((xc ?top + xc ?bottom) / 2) ((yc ?top + yc ?bottom) / 2)"
    by (simp add: pt_scale_def pt_add_def)
  have dist: "?top \<noteq> ?bottom \<longrightarrow> ?detected ! 7 \<noteq> ?top \<and> ?detected ! 7 \<noteq> ?bottom"
    unfolding n using midpoint_differs [of ?top ?bottom] by blast
  have p: "pose ext s face_idx =
       Inr (pose_matrix
         (Rodrigues_vec ext (fst (solvePnP ext (head_points ext) ?detected (projection_of s) []
             (12 / 10, 12 / 10, - (12 / 10)) (0, 0, 1000) True SOLVEPNP_ITERATIVE)))
         (snd (solvePnP ext (head_points ext) ?detected (projection_of s) []
             (12 / 10, 12 / 10, - (12 / 10)) (0, 0, 1000) True SOLVEPNP_ITERATIVE)))"
    using pose_stored [OF d] by (simp add: rvec_init_def tvec_init_def)
  have l: "length ?detected = 8"
    by simp
  have m': "?detected ! 7 = PointT ((xc ?top + xc ?bottom) / 2) ((yc ?top + yc ?bottom) / 2)"
    using n mid by simp
  show ?thesis
    using coordsOf_stored [OF assms, of MOUTH_CENTER_TOP]
      coordsOf_stored [OF assms, of MOUTH_CENTER_BOTTOM] d l m' dist p
    by blast
qed

theorem stomion_is_midpoint_witness:
  "landmarks_stored sample_externals (sample_estimator 3) 0 \<and>
   coordsOf sample_externals (sample_estimator 3) 0 MOUTH_CENTER_TOP = Inr (PointT 65 124) \<and>
   coordsOf sample_externals (sample_estimator 3) 0 MOUTH_CENTER_BOTTOM = Inr (PointT 69 132) \<and>
   (\<exists>detected. detected_points sample_externals (sample_estimator 3) 0 = Inr detected \<and>
      detected ! 7 = PointT 67 128)"
proof -
  have st: "landmarks_stored sample_externals (sample_estimator 3) 0"
    by (rule sample_stored)
  have t: "coordsOf sample_externals (sample_estimator 3) 0 MOUTH_CENTER_TOP
      = Inr (PointT 65 124)"
    by (simp add: coordsOf_def vec_at_def sample_estimator_def sample_externals_def
        sample_shape_def toCv_def toPoint2f_def signed_take_bit_eq_take_bit_shift take_bit_eq_mod)
  have b: "coordsOf sample_externals (sample_estimator 3) 0 MOUTH_CENTER_BOTTOM
      = Inr (PointT 69 132)"
    by (simp add: coordsOf_def vec_at_def sample_estimator_def sample_externals_def
        sample_shape_def toCv_def toPoint2f_def signed_take_bit_eq_take_bit_shift take_bit_eq_mod)
  show ?thesis
    using st t b stomion_is_midpoint [OF st] by auto
qed

lemma sample_pose:
  "pose sample_externals (sample_estimator x) 0
     = Inr ((1, 0, 0, 0), (0, 1, 0, 0), (0, 0, 1, 1), (0, 0, 0, 1))"
proof -
  obtain detected where d: "detected_points sample_externals (sample_estimator x) 0 = Inr detected"
    using detected_points_stored [OF sample_stored] by blast
  show ?thesis
    using pose_stored [OF d]
    by (simp add: sample_externals_def pose_matrix_def rvec_init_def tvec_init_def)
qed

text \<open>
  C6, amended. For every \<open>face_idx\<close> greater than or equal to the number of stored shapes,
  \<^verbatim>\<open>pose\<close> reads the stored shapes past their end without a check (undefined behaviour
  in C++); for no input does \<^verbatim>\<open>pose\<close> signal an index error.
\<close>

theorem pose_out_of_range_unchecked:
  "(length (shapes s) \<le> face_idx \<longrightarrow> pose ext s face_idx = Inl OutOfBoundsRead) \<and>
   pose ext s face_idx \<noteq> Inl IndexError"
  using pose_beyond_shapes [of s face_idx ext] pose_fault [of ext s face_idx IndexError]
  by auto

theorem pose_out_of_range_unchecked_witness:
  "length (shapes (sample_estimator 3)) \<le> 1 \<and>
   pose sample_externals (sample_estimator 3) 1 = Inl OutOfBoundsRead"
proof -
  have "length (shapes (sample_estimator 3)) \<le> 1"
    by (simp add: sample_estimator_def)
  then show ?thesis
    using pose_out_of_range_unchecked [of "sample_estimator 3" 1 sample_externals] by simp
qed

text \<open>
  C6 as stated fails: on a freshly constructed estimator, which stores no face,
  \<^verbatim>\<open>pose(0)\<close> is an unchecked read past the end and not an index error.
\<close>

theorem pose_index_error_counterexample:
  "length (shapes (HeadPoseEstimation_init 455)) \<le> 0 \<and>
   pose sample_externals (HeadPoseEstimation_init 455) 0 = Inl OutOfBoundsRead \<and>
   pose sample_externals (HeadPoseEstimation_init 455) 0 \<noteq> Inl IndexError"
  by (simp add: HeadPoseEstimation_init_def pose_beyond_shapes)

subsection \<open>update and poses\<close>

lemma mapF_pointwise:
  "(\<forall>x\<in>set xs. f x = Inr (g x)) \<Longrightarrow> mapF f xs = Inr (map g xs)"
  by (induction xs) simp_all

lemma mapF_eq_Inr:
  "mapF f xs = Inr ys \<longleftrightarrow>
     length ys = length xs \<and> (\<forall>i<length xs. f (xs ! i) = Inr (ys ! i))"
proof (induction xs arbitrary: ys)
  case Nil
  then show ?case by auto
next
  case (Cons x xs)
  show ?case
  proof (cases ys)
    case Nil
    then show ?thesis
      by (auto simp: bindF_eq_Inr)
  next
    case (Cons y ys')
    have "mapF f (x # xs) = Inr (y # ys') \<longleftrightarrow> f x = Inr y \<and> mapF f xs = Inr ys'"
      by (auto simp: bindF_eq_Inr)
    also have "\<dots> \<longleftrightarrow> f x = Inr y \<and> length ys' = length xs \<and>
        (\<forall>i<length xs. f (xs ! i) = Inr (ys' ! i))"
      by (simp add: Cons.IH)
    also have "\<dots> \<longleftrightarrow> length (y # ys') = length (x # xs) \<and>
        (\<forall>i<length (x # xs). f ((x # xs) ! i) = Inr ((y # ys') ! i))"
      by (auto simp: nth_Cons split: nat.splits)
    finally show ?thesis
      by (simp only: Cons)
  qed
qed

lemma features_of_eq_Inr:
  "features_of d = Inr fs \<Longrightarrow> 68 \<le> length (parts d)"
proof -
  assume "features_of d = Inr fs"
  then have "\<forall>i<68. bindF (vec_at (parts d) i) (\<lambda>p. Inr (toCv p)) = Inr (fs ! i)"
    by (simp add: features_of_def mapF_eq_Inr)
  then have "bindF (vec_at (parts d) 67) (\<lambda>p. Inr (toCv p)) = Inr (fs ! 67)"
    by simp
  then show ?thesis
    by (auto simp: bindF_eq_Inr vec_at_def split: if_splits)
qed

lemma features_of_complete:
  assumes "68 \<le> length (parts d)"
  shows "features_of d = Inr (map (\<lambda>i. toCv (parts d ! i)) [0..<68])"
  unfolding features_of_def
  by (rule mapF_pointwise) (use assms in \<open>simp add: vec_at_def\<close>)

text \<open>The estimator that \<^verbatim>\<open>update\<close> leaves.\<close>

lemma update_eq_Inr:
  assumes "update ext st s img = Inr (all_features, s')"
  shows "s' = s\<lparr>opticalCenterX := (if opticalCenterX s = - 1 then of_int (cols img sdiv 2)
                                   else opticalCenterX s),
               opticalCenterY := (if opticalCenterX s = - 1 then of_int (rows img sdiv 2)
                                   else opticalCenterY s),
               current_image := Some img,
               faces := detector ext (rows img) (cols img) (mem st (data img)),
               shapes := map (pose_model ext (rows img) (cols img) (mem st (data img)))
                           (detector ext (rows img) (cols img) (mem st (data img)))\<rparr>"
    and "mapF features_of (shapes s') = Inr all_features"
  using assms by (auto simp: update_def Let_def bindF_eq_Inr)

lemma update_no_faces:
  assumes "detector ext (rows img) (cols img) (mem st (data img)) = []"
  shows "\<exists>s'. update ext st s img = Inr ([], s') \<and> faces s' = [] \<and> shapes s' = []"
  using assms by (simp add: update_def Let_def)

lemma update_shapes:
  assumes "update ext st s img = Inr (all_features, s')"
  shows "length (faces s') = length (shapes s')"
    and "length all_features = length (shapes s')"
    and "length (faces s') = length (detector ext (rows img) (cols img) (mem st (data img)))"
    and "\<forall>i<length (shapes s'). 68 \<le> length (parts (shapes s' ! i))"
proof -
  note u = update_eq_Inr [OF assms]
  show "length (faces s') = length (shapes s')"
    by (subst (1 2) u(1)) simp
  show "length (faces s') = length (detector ext (rows img) (cols img) (mem st (data img)))"
    by (subst u(1)) simp
  from u(2) have m: "length all_features = length (shapes s')"
    and f: "\<forall>i<length (shapes s'). features_of (shapes s' ! i) = Inr (all_features ! i)"
    by (simp_all add: mapF_eq_Inr)
  show "length all_features = length (shapes s')"
    by (rule m)
  show "\<forall>i<length (shapes s'). 68 \<le> length (parts (shapes s' ! i))"
    using f features_of_eq_Inr by blast
qed

lemma poses_eq_Inr:
  "poses ext s = Inr ps \<longleftrightarrow>
     length ps = length (faces s) \<and> (\<forall>i<length (faces s). pose ext s i = Inr (ps ! i))"
  by (simp add: poses_def mapF_eq_Inr)

lemma pose_returns:
  assumes "landmarks_stored ext s i"
  shows "\<exists>m. pose ext s i = Inr m"
proof -
  obtain detected where d: "detected_points ext s i = Inr detected"
    using detected_points_stored [OF assms] by simp
  show ?thesis
    by (rule exI) (rule pose_stored [OF d])
qed

lemma poses_returns:
  assumes "\<forall>i<length (faces s). landmarks_stored ext s i"
  shows "\<exists>ps. poses ext s = Inr ps"
proof -
  have "\<forall>x\<in>set [0..<length (faces s)]. pose ext s x = Inr (projr (pose ext s x))"
  proof
    fix x
    assume "x \<in> set [0..<length (faces s)]"
    then have "landmarks_stored ext s x"
      using assms by simp
    then obtain m where "pose ext s x = Inr m"
      using pose_returns by blast
    then show "pose ext s x = Inr (projr (pose ext s x))"
      by simp
  qed
  then have "mapF (pose ext s) [0..<length (faces s)]
      = Inr (map (\<lambda>x. projr (pose ext s x)) [0..<length (faces s)])"
    by (rule mapF_pointwise)
  then show ?thesis
    by (simp add: poses_def)
qed

text \<open>
  C5. \<^verbatim>\<open>poses\<close> returns the list of \<^verbatim>\<open>pose(i)\<close> for every stored face \<open>i\<close>, in
  the order of detection: it returns \<open>ps\<close> exactly when \<open>ps\<close> has one entry per stored face
  and entry \<open>i\<close> is what \<^verbatim>\<open>pose(i)\<close> returns. After an \<^verbatim>\<open>update\<close> that returned, with
  all feature indices below 68, \<^verbatim>\<open>update\<close> has returned one landmark list per detected
  face and \<^verbatim>\<open>poses\<close> returns one pose per landmark list. When the detector finds no
  face, \<^verbatim>\<open>update\<close> returns the empty list and \<^verbatim>\<open>poses\<close> returns the empty list.
\<close>

theorem poses_lists_every_face:
  "(poses ext s = Inr ps \<longleftrightarrow>
      length ps = length (faces s) \<and> (\<forall>i<length (faces s). pose ext s i = Inr (ps ! i))) \<and>
   (update ext st s img = Inr (all_features, s') \<and>
    list_all (\<lambda>f. feature_index ext f < 68) used_features \<longrightarrow>
      length all_features = length (detector ext (rows img) (cols img) (mem st (data img))) \<and>
      (\<exists>ps'. poses ext s' = Inr ps' \<and> length ps' = length all_features)) \<and>
   (detector ext (rows img) (cols img) (mem st (data img)) = [] \<longrightarrow>
      (\<exists>s''. update ext st s img = Inr ([], s'') \<and> poses ext s'' = Inr []))"
proof (intro conjI impI)
  show "poses ext s = Inr ps \<longleftrightarrow>
      length ps = length (faces s) \<and> (\<forall>i<length (faces s). pose ext s i = Inr (ps ! i))"
    by (rule poses_eq_Inr)
next
  assume a: "update ext st s img = Inr (all_features, s') \<and>
    list_all (\<lambda>f. feature_index ext f < 68) used_features"
  note sh = update_shapes [of ext st s img all_features s']
  show "length all_features = length (detector ext (rows img) (cols img) (mem st (data img)))"
    using a sh by simp
  have "\<forall>i<length (faces s'). landmarks_stored ext s' i"
    using a sh by (fastforce simp: landmarks_stored_def list_all_iff)
  then obtain ps' where p: "poses ext s' = Inr ps'"
    using poses_returns by blast
  then have "length ps' = length all_features"
    using a sh by (simp add: poses_eq_Inr)
  with p show "\<exists>ps'. poses ext s' = Inr ps' \<and> length ps' = length all_features"
    by blast
next
  assume "detector ext (rows img) (cols img) (mem st (data img)) = []"
  then obtain s'' where "update ext st s img = Inr ([], s'')" "faces s'' = []"
    using update_no_faces by blast
  then show "\<exists>s''. update ext st s img = Inr ([], s'') \<and> poses ext s'' = Inr []"
    by (auto simp: poses_def)
qed


lemma update_returns:
  assumes "\<forall>face\<in>set (detector ext (rows img) (cols img) (mem st (data img))).
     68 \<le> length (parts (pose_model ext (rows img) (cols img) (mem st (data img)) face))"
  shows "\<exists>all_features s'. update ext st s img = Inr (all_features, s')"
proof -
  let ?shapes = "map (pose_model ext (rows img) (cols img) (mem st (data img)))
      (detector ext (rows img) (cols img) (mem st (data img)))"
  have "\<forall>d\<in>set ?shapes. features_of d = Inr (map (\<lambda>i. toCv (parts d ! i)) [0..<68])"
    using assms features_of_complete by auto
  then have "mapF features_of ?shapes
      = Inr (map (\<lambda>d. map (\<lambda>i. toCv (parts d ! i)) [0..<68]) ?shapes)"
    by (rule mapF_pointwise)
  then show ?thesis
    by (simp add: update_def Let_def)
qed

lemma sample_update_returns:
  "\<exists>all_features s'. update sample_externals st s img = Inr (all_features, s')"
  by (rule update_returns) (simp add: sample_externals_def sample_shape_def)

theorem poses_lists_every_face_witness:
  "poses sample_externals (sample_estimator 3)
     = Inr [((1, 0, 0, 0), (0, 1, 0, 0), (0, 0, 1, 1), (0, 0, 0, 1))] \<and>
   (\<exists>all_features s'.
      update sample_externals sample_store (HeadPoseEstimation_init 455) sample_image
        = Inr (all_features, s') \<and>
      length all_features = 1 \<and>
      (\<exists>ps. poses sample_externals s' = Inr ps \<and> length ps = 1)) \<and>
   detector sample_externals (rows sample_image) (cols sample_image)
      (mem (sample_store\<lparr>mem := (\<lambda>a. \<lparr>base = [], marks = []\<rparr>)\<rparr>) (data sample_image)) = [] \<and>
   (\<exists>s''. update sample_externals (sample_store\<lparr>mem := (\<lambda>a. \<lparr>base = [], marks = []\<rparr>)\<rparr>)
             (HeadPoseEstimation_init 455) sample_image = Inr ([], s'') \<and>
          poses sample_externals s'' = Inr [])"
proof -
  let ?m = "((1, 0, 0, 0), (0, 1, 0, 0), (0, 0, 1, 1), (0, 0, 0, 1)) :: head_pose"
  let ?blank = "sample_store\<lparr>mem := (\<lambda>a. \<lparr>base = [], marks = []\<rparr>)\<rparr>"
  obtain all_features s' where
    u: "update sample_externals sample_store (HeadPoseEstimation_init 455) sample_image
        = Inr (all_features, s')"
    using sample_update_returns by blast
  have idx: "list_all (\<lambda>f. feature_index sample_externals f < 68) used_features"
    by (simp add: used_features_def sample_externals_def)
  have none: "detector sample_externals (rows sample_image) (cols sample_image)
      (mem ?blank (data sample_image)) = []"
    by (simp add: sample_externals_def)
  have one: "length (detector sample_externals (rows sample_image) (cols sample_image)
      (mem sample_store (data sample_image))) = 1"
    by (simp add: sample_externals_def sample_store_def)
  have a: "poses sample_externals (sample_estimator 3) = Inr [?m]"
    using poses_lists_every_face [of sample_externals "sample_estimator 3" "[?m]"
        sample_store sample_image all_features s']
      sample_pose [of 3]
    by (simp add: sample_estimator_def)
  have b: "length all_features = 1 \<and>
      (\<exists>ps. poses sample_externals s' = Inr ps \<and> length ps = 1)"
    using poses_lists_every_face [of sample_externals "HeadPoseEstimation_init 455" "[]"
        sample_store sample_image all_features s'] u idx one
    by auto
  have c: "\<exists>s''. update sample_externals ?blank (HeadPoseEstimation_init 455) sample_image
        = Inr ([], s'') \<and> poses sample_externals s'' = Inr []"
    using poses_lists_every_face [of sample_externals "HeadPoseEstimation_init 455" "[]"
        ?blank sample_image all_features s'] none
    by blast
  show ?thesis
    using a b c none u by blast
qed

subsection \<open>The optical center\<close>

lemma sdiv_two_not_sentinel:
  fixes k :: int
  assumes "- 1 \<le> k"
  shows "(of_int (k sdiv 2) :: real) \<noteq> - 1"
proof -
  have "0 \<le> k sdiv 2"
  proof (cases "k = - 1")
    case True
    then show ?thesis
      by (simp add: signed_divide_int_def)
  next
    case False
    with assms have "0 \<le> k" by simp
    then show ?thesis
      by (simp add: signed_divide_int_def sgn_if)
  qed
  then have "(0::real) \<le> of_int (k sdiv 2)"
    by simp
  then show ?thesis
    by linarith
qed

lemma exec_no_update:
  assumes "exec ext x (st, s) = Inr (st', s')" and "\<not> is_Update x"
  shows "s' = s"
  using assms by (cases x) (auto simp: bindF_eq_Inr)

lemma run_no_update:
  assumes "run ext calls (st, s) = Inr (st', s')" and "\<not> list_ex is_Update calls"
  shows "s' = s"
  using assms
proof (induction calls arbitrary: st s)
  case Nil
  then show ?case by simp
next
  case (Cons x xs)
  from Cons.prems(1) obtain st1 s1 where e: "exec ext x (st, s) = Inr (st1, s1)"
    and r: "run ext xs (st1, s1) = Inr (st', s')"
    by (auto simp: bindF_eq_Inr)
  from Cons.prems(2) have nx: "\<not> is_Update x" and nxs: "\<not> list_ex is_Update xs"
    by simp_all
  have "s1 = s"
    using exec_no_update [OF e nx] .
  moreover have "s' = s1"
    using Cons.IH [OF r nxs] .
  ultimately show ?case by simp
qed

lemma exec_center_kept:
  assumes "exec ext x (st, s) = Inr (st', s')" and "opticalCenterX s \<noteq> - 1"
  shows "opticalCenterX s' = opticalCenterX s \<and> opticalCenterY s' = opticalCenterY s"
proof (cases x)
  case (Update img)
  with assms(1) obtain fs where u: "update ext st s img = Inr (fs, s')"
    by (auto simp: bindF_eq_Inr)
  show ?thesis
    by (subst (1 2) update_eq_Inr(1) [OF u]) (simp add: assms(2))
next
  case (Pose i)
  with assms(1) show ?thesis by (auto simp: bindF_eq_Inr)
next
  case Poses
  with assms(1) show ?thesis by (auto simp: bindF_eq_Inr)
next
  case (DrawDetections img fs ps)
  with assms(1) show ?thesis by (auto simp: bindF_eq_Inr)
qed

lemma run_center_kept:
  assumes "run ext calls (st, s) = Inr (st', s')" and "opticalCenterX s \<noteq> - 1"
  shows "opticalCenterX s' = opticalCenterX s \<and> opticalCenterY s' = opticalCenterY s"
  using assms
proof (induction calls arbitrary: st s)
  case Nil
  then show ?case by simp
next
  case (Cons x xs)
  from Cons.prems(1) obtain st1 s1 where e: "exec ext x (st, s) = Inr (st1, s1)"
    and r: "run ext xs (st1, s1) = Inr (st', s')"
    by (auto simp: bindF_eq_Inr)
  have k: "opticalCenterX s1 = opticalCenterX s \<and> opticalCenterY s1 = opticalCenterY s"
    using exec_center_kept [OF e Cons.prems(2)] .
  then have "opticalCenterX s1 \<noteq> - 1"
    using Cons.prems(2) by simp
  from Cons.IH [OF r this] k show ?case by simp
qed

lemma run_append:
  "run ext (xs @ ys) c = bindF (run ext xs c) (run ext ys)"
proof (induction xs arbitrary: c)
  case Nil
  then show ?case by simp
next
  case (Cons x xs)
  show ?case
    by (cases "exec ext x c") (simp_all add: Cons.IH)
qed

lemma first_update_sets_center:
  assumes "update ext st s img = Inr (fs, s')" and "opticalCenterX s = - 1"
  shows "opticalCenterX s' = of_int (cols img sdiv 2)"
    and "opticalCenterY s' = of_int (rows img sdiv 2)"
  by (subst update_eq_Inr(1) [OF assms(1)], simp add: assms(2))+

text \<open>
  C4. Take any sequence of calls on a freshly constructed estimator that runs to its end.
  As long as it contains no \<^verbatim>\<open>update\<close>, the optical center holds the sentinel
  \<open>(-1, -1)\<close>. Once it contains an \<^verbatim>\<open>update\<close>, the optical center is
  \<open>(image.cols / 2, image.rows / 2)\<close> of the image of the first \<^verbatim>\<open>update\<close> (the division
  is that of C++ on \<^verbatim>\<open>int\<close>), whatever calls follow and whatever the sizes of later
  images. The image has \<open>cols \<ge> -1\<close>, as every \<^verbatim>\<open>cv::Mat\<close> has.
\<close>

theorem optical_center_set_once:
  assumes "run ext calls (st, HeadPoseEstimation_init fl) = Inr (st', s')"
  shows "(\<not> list_ex is_Update calls \<longrightarrow> opticalCenterX s' = - 1 \<and> opticalCenterY s' = - 1) \<and>
         (\<forall>before img after.
            calls = before @ Update img # after \<and> \<not> list_ex is_Update before \<and> - 1 \<le> cols img
            \<longrightarrow> opticalCenterX s' = of_int (cols img sdiv 2) \<and>
                opticalCenterY s' = of_int (rows img sdiv 2))"
proof (rule conjI; intro impI allI)
  assume "\<not> list_ex is_Update calls"
  then have "s' = HeadPoseEstimation_init fl"
    using run_no_update [OF assms] by simp
  then show "opticalCenterX s' = - 1 \<and> opticalCenterY s' = - 1"
    by (simp add: HeadPoseEstimation_init_def)
next
  fix before img after
  assume a: "calls = before @ Update img # after \<and> \<not> list_ex is_Update before \<and> - 1 \<le> cols img"
  from assms a have "bindF (run ext before (st, HeadPoseEstimation_init fl))
      (run ext (Update img # after)) = Inr (st', s')"
    by (simp add: run_append)
  then obtain st1 s1 where r1: "run ext before (st, HeadPoseEstimation_init fl) = Inr (st1, s1)"
    and r2: "run ext (Update img # after) (st1, s1) = Inr (st', s')"
    by (auto simp: bindF_eq_Inr)
  have s1: "s1 = HeadPoseEstimation_init fl"
    using run_no_update [OF r1] a by simp
  from r2 obtain st2 s2 where e: "exec ext (Update img) (st1, s1) = Inr (st2, s2)"
    and r3: "run ext after (st2, s2) = Inr (st', s')"
    by (auto simp: bindF_eq_Inr)
  from e obtain fs where u: "update ext st1 s1 img = Inr (fs, s2)"
    by (auto simp: bindF_eq_Inr)
  have unset: "opticalCenterX s1 = - 1"
    by (simp add: s1 HeadPoseEstimation_init_def)
  have x2: "opticalCenterX s2 = of_int (cols img sdiv 2)"
    and y2: "opticalCenterY s2 = of_int (rows img sdiv 2)"
    using first_update_sets_center [OF u unset] by simp_all
  have "opticalCenterX s2 \<noteq> - 1"
    unfolding x2 using a sdiv_two_not_sentinel by blast
  from run_center_kept [OF r3 this] x2 y2
  show "opticalCenterX s' = of_int (cols img sdiv 2) \<and>
        opticalCenterY s' = of_int (rows img sdiv 2)"
    by simp
qed


lemma sample_update:
  "update sample_externals sample_store s img =
     Inr ([map (\<lambda>i. toCv (parts (sample_shape (0, 0, 0, 0)) ! i)) [0..<68]],
          (if opticalCenterX s = - 1
           then s\<lparr>opticalCenterX := of_int (cols img sdiv 2),
                  opticalCenterY := of_int (rows img sdiv 2)\<rparr>
           else s)\<lparr>current_image := Some img, faces := [(0, 0, 0, 0)],
                    shapes := [sample_shape (0, 0, 0, 0)]\<rparr>)"
proof -
  have "68 \<le> length (parts (sample_shape (0, 0, 0, 0)))"
    by (simp add: sample_shape_def)
  then have "features_of (sample_shape (0, 0, 0, 0))
      = Inr (map (\<lambda>i. toCv (parts (sample_shape (0, 0, 0, 0)) ! i)) [0..<68])"
    by (rule features_of_complete)
  then show ?thesis
    by (simp add: update_def Let_def sample_externals_def sample_store_def)
qed

lemma sample_shape_pose:
  assumes "shapes s = [sample_shape r]"
  shows "pose sample_externals s 0
     = Inr ((1, 0, 0, 0), (0, 1, 0, 0), (0, 0, 1, 1), (0, 0, 0, 1))"
proof -
  have "landmarks_stored sample_externals s 0"
    by (simp add: landmarks_stored_def assms sample_externals_def sample_shape_def
        used_features_def)
  then obtain detected where d: "detected_points sample_externals s 0 = Inr detected"
    using detected_points_stored by blast
  show ?thesis
    using pose_stored [OF d]
    by (simp add: sample_externals_def pose_matrix_def rvec_init_def tvec_init_def)
qed

lemma sample_shape_poses:
  assumes "shapes s = [sample_shape r]" and "faces s = [f]"
  shows "poses sample_externals s
     = Inr [((1, 0, 0, 0), (0, 1, 0, 0), (0, 0, 1, 1), (0, 0, 0, 1))]"
  by (simp add: poses_def assms(2) sample_shape_pose [OF assms(1)])

lemma sdiv_two_values: "(101 :: int) sdiv 2 = 50" "(100 :: int) sdiv 2 = 50"
  by (simp_all add: signed_divide_int_def)

theorem optical_center_set_once_witness:
  "\<exists>st' s'.
     run sample_externals
       [Poses, Update sample_image, Pose 0, Update \<lparr>rows = 480, cols = 640, data = 0\<rparr>, Poses]
       (sample_store, HeadPoseEstimation_init 455) = Inr (st', s') \<and>
     opticalCenterX s' = 50 \<and> opticalCenterY s' = 50"
proof -
  let ?calls = "[Poses, Update sample_image, Pose 0,
      Update \<lparr>rows = 480, cols = 640, data = 0\<rparr>, Poses]"
  have r: "\<exists>st' s'. run sample_externals ?calls (sample_store, HeadPoseEstimation_init 455)
      = Inr (st', s')"
  proof -
    have p0: "poses sample_externals (HeadPoseEstimation_init 455) = Inr []"
      by (simp add: poses_def HeadPoseEstimation_init_def)
    show ?thesis
      by (simp add: p0 sample_update sample_shape_pose sample_shape_poses)
  qed
  then obtain st' s' where
    run: "run sample_externals ?calls (sample_store, HeadPoseEstimation_init 455) = Inr (st', s')"
    by blast
  have split: "?calls = [Poses] @ Update sample_image #
      [Pose 0, Update \<lparr>rows = 480, cols = 640, data = 0\<rparr>, Poses]"
    by simp
  have pre: "\<not> list_ex is_Update [Poses]"
    by simp
  have dim: "- 1 \<le> cols sample_image"
    by (simp add: sample_image_def)
  have "opticalCenterX s' = of_int (cols sample_image sdiv 2) \<and>
      opticalCenterY s' = of_int (rows sample_image sdiv 2)"
    using optical_center_set_once [OF run] split pre dim by blast
  then have "opticalCenterX s' = 50 \<and> opticalCenterY s' = 50"
    by (simp add: sample_image_def sdiv_two_values)
  with run show ?thesis
    by blast
qed

subsection \<open>The initial guess of pose\<close>

text \<open>
  C3. Every call of \<^verbatim>\<open>pose\<close> hands to \<^verbatim>\<open>solvePnP\<close> the rotation vector
  \<open>(1.2, 1.2, -1.2)\<close> and the translation vector \<open>(0, 0, 1000)\<close> as initial guess, with the
  extrinsic guess switched on and the iterative method, and returns the matrix made of
  what \<^verbatim>\<open>solvePnP\<close> returns for them: whatever the solver is, \<^verbatim>\<open>pose\<close> is the solver's
  answer to that seed for the detected points of the face. For a face with stored landmarks
  the solver is given eight points and the pose is returned. The seed is the same in every
  state, and calls that are not \<^verbatim>\<open>update\<close> leave what \<^verbatim>\<open>pose\<close> returns as it was.
\<close>

theorem pose_seed_fixed:
  "pose ext s face_idx =
     bindF (detected_points ext s face_idx) (\<lambda>detected.
       Inr (pose_matrix
         (Rodrigues_vec ext (fst (solvePnP ext (head_points ext) detected (projection_of s) []
            (12 / 10, 12 / 10, - (12 / 10)) (0, 0, 1000) True SOLVEPNP_ITERATIVE)))
         (snd (solvePnP ext (head_points ext) detected (projection_of s) []
            (12 / 10, 12 / 10, - (12 / 10)) (0, 0, 1000) True SOLVEPNP_ITERATIVE)))) \<and>
   (landmarks_stored ext s face_idx \<longrightarrow>
      (\<exists>detected. detected_points ext s face_idx = Inr detected \<and> length detected = 8 \<and>
         pose ext s face_idx =
           Inr (pose_matrix
             (Rodrigues_vec ext (fst (solvePnP ext (head_points ext) detected (projection_of s) []
                (12 / 10, 12 / 10, - (12 / 10)) (0, 0, 1000) True SOLVEPNP_ITERATIVE)))
             (snd (solvePnP ext (head_points ext) detected (projection_of s) []
                (12 / 10, 12 / 10, - (12 / 10)) (0, 0, 1000) True SOLVEPNP_ITERATIVE))))) \<and>
   (run ext calls (st, s) = Inr (st', s') \<and> \<not> list_ex is_Update calls \<longrightarrow>
      pose ext s' face_idx = pose ext s face_idx)"
proof (intro conjI impI)
  show "pose ext s face_idx =
     bindF (detected_points ext s face_idx) (\<lambda>detected.
       Inr (pose_matrix
         (Rodrigues_vec ext (fst (solvePnP ext (head_points ext) detected (projection_of s) []
            (12 / 10, 12 / 10, - (12 / 10)) (0, 0, 1000) True SOLVEPNP_ITERATIVE)))
         (snd (solvePnP ext (head_points ext) detected (projection_of s) []
            (12 / 10, 12 / 10, - (12 / 10)) (0, 0, 1000) True SOLVEPNP_ITERATIVE))))"
    by (simp only: pose_def Let_def rvec_init_def tvec_init_def)
next
  assume a: "landmarks_stored ext s face_idx"
  let ?detected = "[landmark_at ext s face_idx SELLION, landmark_at ext s face_idx RIGHT_EYE,
         landmark_at ext s face_idx LEFT_EYE, landmark_at ext s face_idx RIGHT_SIDE,
         landmark_at ext s face_idx LEFT_SIDE, landmark_at ext s face_idx MENTON,
         landmark_at ext s face_idx NOSE,
         pt_scale (pt_add (landmark_at ext s face_idx MOUTH_CENTER_TOP)
                          (landmark_at ext s face_idx MOUTH_CENTER_BOTTOM)) (1 / 2)]"
  have d: "detected_points ext s face_idx = Inr ?detected"
    by (rule detected_points_stored [OF a])
  have l: "length ?detected = 8"
    by simp
  have p: "pose ext s face_idx =
           Inr (pose_matrix
             (Rodrigues_vec ext (fst (solvePnP ext (head_points ext) ?detected (projection_of s) []
                (12 / 10, 12 / 10, - (12 / 10)) (0, 0, 1000) True SOLVEPNP_ITERATIVE)))
             (snd (solvePnP ext (head_points ext) ?detected (projection_of s) []
                (12 / 10, 12 / 10, - (12 / 10)) (0, 0, 1000) True SOLVEPNP_ITERATIVE)))"
    using pose_stored [OF d] by (simp only: rvec_init_def tvec_init_def)
  from d l p show "\<exists>detected. detected_points ext s face_idx = Inr detected \<and>
      length detected = 8 \<and>
      pose ext s face_idx =
           Inr (pose_matrix
             (Rodrigues_vec ext (fst (solvePnP ext (head_points ext) detected (projection_of s) []
                (12 / 10, 12 / 10, - (12 / 10)) (0, 0, 1000) True SOLVEPNP_ITERATIVE)))
             (snd (solvePnP ext (head_points ext) detected (projection_of s) []
                (12 / 10, 12 / 10, - (12 / 10)) (0, 0, 1000) True SOLVEPNP_ITERATIVE)))"
    by blast
next
  assume "run ext calls (st, s) = Inr (st', s') \<and> \<not> list_ex is_Update calls"
  then have "s' = s"
    using run_no_update by blast
  then show "pose ext s' face_idx = pose ext s face_idx"
    by simp
qed

theorem pose_seed_fixed_witness:
  "landmarks_stored
     (sample_externals\<lparr>solvePnP := probe_solvePnP, Rodrigues_vec := probe_Rodrigues\<rparr>)
     (sample_estimator 3) 0 \<and>
   pose (sample_externals\<lparr>solvePnP := probe_solvePnP, Rodrigues_vec := probe_Rodrigues\<rparr>)
     (sample_estimator 3) 0
     = Inr ((22 / 10, 12 / 10, - (12 / 10), 0), (0, 0, 0, 0), (0, 0, 0, 2), (0, 0, 0, 1)) \<and>
   run (sample_externals\<lparr>solvePnP := probe_solvePnP, Rodrigues_vec := probe_Rodrigues\<rparr>)
     [Pose 0, Poses] (sample_store, sample_estimator 3)
     = Inr (sample_store, sample_estimator 3) \<and>
   \<not> list_ex is_Update [Pose 0, Poses]"
proof -
  let ?ext = "sample_externals\<lparr>solvePnP := probe_solvePnP, Rodrigues_vec := probe_Rodrigues\<rparr>"
  let ?s = "sample_estimator 3"
  let ?m = "((22 / 10, 12 / 10, - (12 / 10), 0), (0, 0, 0, 0), (0, 0, 0, 2), (0, 0, 0, 1))
    :: head_pose"
  note inst = pose_seed_fixed [of ?ext ?s 0 "[Pose 0, Poses]" sample_store sample_store ?s]
  have st: "landmarks_stored ?ext ?s 0"
    using sample_stored [of 3] by (simp add: landmarks_stored_def)
  obtain detected where l: "length detected = 8"
    and p: "pose ?ext ?s 0 =
           Inr (pose_matrix
             (Rodrigues_vec ?ext (fst (solvePnP ?ext (head_points ?ext) detected
                (projection_of ?s) []
                (12 / 10, 12 / 10, - (12 / 10)) (0, 0, 1000) True SOLVEPNP_ITERATIVE)))
             (snd (solvePnP ?ext (head_points ?ext) detected (projection_of ?s) []
                (12 / 10, 12 / 10, - (12 / 10)) (0, 0, 1000) True SOLVEPNP_ITERATIVE)))"
    using inst [THEN conjunct2, THEN conjunct1, rule_format, OF st] by blast
  have m: "pose ?ext ?s 0 = Inr ?m"
    unfolding p using l
    by (simp add: probe_solvePnP_def probe_Rodrigues_def pose_matrix_def)
  have r: "run ?ext [Pose 0, Poses] (sample_store, ?s) = Inr (sample_store, ?s)"
  proof -
    have "faces ?s = [(3, 0, 0, 0)]"
      by (simp add: sample_estimator_def)
    then have "poses ?ext ?s = Inr [?m]"
      by (simp add: poses_def m)
    then show ?thesis
      by (simp add: m)
  qed
  have n: "\<not> list_ex is_Update [Pose 0, Poses]"
    by simp
  have "pose ?ext ?s 0 = pose ?ext ?s 0"
    using inst [THEN conjunct2, THEN conjunct2, rule_format, OF conjI [OF r n]] .
  with st m r n show ?thesis
    by simp
qed

subsection \<open>Drawing\<close>

lemma append_marks_Nil [simp]: "append_marks a [] st = st"
  by (simp add: append_marks_def)

lemma append_marks_append [simp]:
  "append_marks a ys (append_marks a xs st) = append_marks a (xs @ ys) st"
  by (simp add: append_marks_def)

lemma cv_line_append:
  "cv_line st img pt1 pt2 color thickness
     = append_marks (data img) [Line pt1 pt2 color thickness] st"
  by (simp add: cv_line_def append_marks_def)

lemma putText_append:
  "putText st img txt org fontScale color thickness
     = append_marks (data img) [PutText txt org fontScale color thickness] st"
  by (simp add: putText_def append_marks_def)

lemma append_marks_frame:
  "brk (append_marks a cmds st) = brk st"
  "b \<noteq> a \<Longrightarrow> mem (append_marks a cmds st) b = mem st b"
  "base (mem (append_marks a cmds st) a) = base (mem st a)"
  "marks (mem (append_marks a cmds st) a) = marks (mem st a) @ cmds"
  by (simp_all add: append_marks_def)

lemma cvRound_of_int [simp]: "cvRound (of_int k) = k"
  by (simp add: cvRound_def Let_def)

lemma toPoint_toPoint2f [simp]: "toPoint (toPoint2f p) = p"
  by (simp add: toPoint_def toPoint2f_def)

lemma vec_at_fault: "vec_at xs i = Inl e \<Longrightarrow> e = OutOfBoundsRead"
  by (simp add: vec_at_def split: if_splits)

lemma line_loop_eq_Inr:
  "line_loop fp idxs result st = Inr st' \<Longrightarrow>
     \<exists>cmds. st' = append_marks (data result) cmds st \<and> filter is_PutText cmds = []"
proof (induction idxs arbitrary: st)
  case Nil
  then have "st' = append_marks (data result) [] st \<and> filter is_PutText [] = []"
    by simp
  then show ?case by blast
next
  case (Cons i idxs)
  from Cons.prems obtain a b where
    r: "line_loop fp idxs result (cv_line st result a b line_color 2) = Inr st'"
    by (auto simp: bindF_eq_Inr)
  from Cons.IH [OF r] obtain cmds where
    c: "st' = append_marks (data result) cmds (cv_line st result a b line_color 2)"
    and f: "filter is_PutText cmds = []"
    by blast
  have "st' = append_marks (data result) (Line a b line_color 2 # cmds) st \<and>
      filter is_PutText (Line a b line_color 2 # cmds) = []"
    using c f by (simp add: cv_line_append)
  then show ?case by blast
qed

lemma line_loop_fault:
  "line_loop fp idxs result st = Inl e \<Longrightarrow> e = OutOfBoundsRead"
proof (induction idxs arbitrary: st)
  case Nil
  then show ?case by simp
next
  case (Cons i idxs)
  then show ?case
    by (auto simp: bindF_def split: sum.splits dest: vec_at_fault)
qed

lemma line_between_eq_Inr:
  "line_between fp i j result st = Inr st' \<Longrightarrow>
     \<exists>cmds. st' = append_marks (data result) cmds st \<and> filter is_PutText cmds = []"
proof -
  assume "line_between fp i j result st = Inr st'"
  then obtain a b where "st' = cv_line st result a b line_color 2"
    by (auto simp: line_between_def bindF_eq_Inr)
  then have "st' = append_marks (data result) [Line a b line_color 2] st \<and>
      filter is_PutText [Line a b line_color 2] = []"
    by (simp add: cv_line_append)
  then show ?thesis by blast
qed

lemma line_between_fault:
  "line_between fp i j result st = Inl e \<Longrightarrow> e = OutOfBoundsRead"
  by (auto simp: line_between_def bindF_def split: sum.splits dest: vec_at_fault)

text \<open>Two drawing steps one after the other on the same buffer.\<close>

lemma draw_steps:
  assumes "\<And>st st'. f st = Inr st' \<Longrightarrow>
      \<exists>cmds. st' = append_marks a cmds st \<and> filter is_PutText cmds = []"
    and "\<And>st st'. g st = Inr st' \<Longrightarrow>
      \<exists>cmds. st' = append_marks a cmds st \<and> filter is_PutText cmds = []"
    and "bindF (f st) g = Inr st'"
  shows "\<exists>cmds. st' = append_marks a cmds st \<and> filter is_PutText cmds = []"
proof -
  from assms(3) obtain st1 where f: "f st = Inr st1" and g: "g st1 = Inr st'"
    by (auto simp: bindF_eq_Inr)
  from assms(1) [OF f] obtain c1 where c1: "st1 = append_marks a c1 st"
    "filter is_PutText c1 = []" by blast
  from assms(2) [OF g] obtain c2 where c2: "st' = append_marks a c2 st1"
    "filter is_PutText c2 = []" by blast
  have "st' = append_marks a (c1 @ c2) st \<and> filter is_PutText (c1 @ c2) = []"
    using c1 c2 by simp
  then show ?thesis by blast
qed

lemma draw_steps_fault:
  assumes "\<And>st e. f st = Inl e \<Longrightarrow> e = OutOfBoundsRead"
    and "\<And>st e. g st = Inl e \<Longrightarrow> e = OutOfBoundsRead"
    and "bindF (f st) g = Inl e"
  shows "e = OutOfBoundsRead"
  using assms by (cases "f st") (auto simp: bindF_def)

lemma drawFeatures_face_eq_Inr:
  "drawFeatures_face fp result st = Inr st' \<Longrightarrow>
     \<exists>cmds. st' = append_marks (data result) cmds st \<and> filter is_PutText cmds = []"
  unfolding drawFeatures_face_def
  by (erule draw_steps [rotated 2]; (erule line_loop_eq_Inr | erule line_between_eq_Inr)?)+


lemma drawFeatures_face_fault:
  "drawFeatures_face fp result st = Inl e \<Longrightarrow> e = OutOfBoundsRead"
  unfolding drawFeatures_face_def
  by (erule draw_steps_fault [rotated 2]; (erule line_loop_fault | erule line_between_fault)?)+

lemma drawFeatures_eq_Inr:
  "drawFeatures fs result st = Inr st' \<Longrightarrow>
     \<exists>cmds. st' = append_marks (data result) cmds st \<and> filter is_PutText cmds = []"
proof (induction fs arbitrary: st)
  case Nil
  then have "st' = append_marks (data result) [] st \<and> filter is_PutText [] = []"
    by simp
  then show ?case by blast
next
  case (Cons fp fs)
  from Cons.prems obtain st1 where f: "drawFeatures_face fp result st = Inr st1"
    and r: "drawFeatures fs result st1 = Inr st'"
    by (auto simp: bindF_eq_Inr)
  from drawFeatures_face_eq_Inr [OF f] obtain c1 where
    c1: "st1 = append_marks (data result) c1 st" "filter is_PutText c1 = []" by blast
  from Cons.IH [OF r] obtain c2 where
    c2: "st' = append_marks (data result) c2 st1" "filter is_PutText c2 = []" by blast
  have "st' = append_marks (data result) (c1 @ c2) st \<and> filter is_PutText (c1 @ c2) = []"
    using c1 c2 by simp
  then show ?case by blast
qed

lemma drawFeatures_fault:
  "drawFeatures fs result st = Inl e \<Longrightarrow> e = OutOfBoundsRead"
proof (induction fs arbitrary: st)
  case Nil
  then show ?case by simp
next
  case (Cons fp fs)
  show ?case
  proof (cases "drawFeatures_face fp result st")
    case (Inl e')
    with Cons.prems have "e = e'" by simp
    with Inl show ?thesis using drawFeatures_face_fault by blast
  next
    case (Inr st1)
    with Cons.prems have "drawFeatures fs result st1 = Inl e" by simp
    then show ?thesis by (rule Cons.IH)
  qed
qed

lemma coordsOf_eq_Inr:
  "coordsOf ext s face_idx f = Inr q \<Longrightarrow>
     face_idx < length (shapes s) \<and>
     feature_index ext f < length (parts (shapes s ! face_idx)) \<and>
     q = toPoint2f (toCv (parts (shapes s ! face_idx) ! feature_index ext f))"
  by (auto simp: coordsOf_def bindF_eq_Inr vec_at_def split: if_splits)

text \<open>The three axis lines that \<^verbatim>\<open>drawPose\<close> draws for a pose.\<close>

lemma drawPose_eq_Inr:
  assumes "drawPose ext s p i result st = Inr st'"
  shows "i < length (shapes s)"
    and "feature_index ext SELLION < length (parts (shapes s ! i))"
    and "\<exists>l1 l2 l3. \<not> is_PutText l1 \<and> \<not> is_PutText l2 \<and> \<not> is_PutText l3 \<and>
           st' = append_marks (data result) [l1, l2, l3, label_of ext s p i] st"
proof -
  from assms obtain org where c: "coordsOf ext s i SELLION = Inr org"
    and st': "st' = putText
        (cv_line (cv_line (cv_line st result
            (toPoint (projectPoints ext (Rodrigues_mat ext (rotation_block p))
               (translation_col p) (projection_of s) [] (Point3f 0 0 0)))
            (toPoint (projectPoints ext (Rodrigues_mat ext (rotation_block p))
               (translation_col p) (projection_of s) [] (Point3f 0 0 50)))
            x_axis_color 2) result
            (toPoint (projectPoints ext (Rodrigues_mat ext (rotation_block p))
               (translation_col p) (projection_of s) [] (Point3f 0 0 0)))
            (toPoint (projectPoints ext (Rodrigues_mat ext (rotation_block p))
               (translation_col p) (projection_of s) [] (Point3f 0 50 0)))
            y_axis_color 2) result
            (toPoint (projectPoints ext (Rodrigues_mat ext (rotation_block p))
               (translation_col p) (projection_of s) [] (Point3f 0 0 0)))
            (toPoint (projectPoints ext (Rodrigues_mat ext (rotation_block p))
               (translation_col p) (projection_of s) [] (Point3f 50 0 0)))
            z_axis_color 2)
        result (pose_label p) (toPoint org) (1 / 2) text_color 2"
    by (auto simp: drawPose_def Let_def bindF_eq_Inr numeral_eq_Suc)
  note co = coordsOf_eq_Inr [OF c]
  show "i < length (shapes s)"
    using co by simp
  show "feature_index ext SELLION < length (parts (shapes s ! i))"
    using co by simp
  have org: "toPoint org = toCv (parts (shapes s ! i) ! feature_index ext SELLION)"
    using co by simp
  show "\<exists>l1 l2 l3. \<not> is_PutText l1 \<and> \<not> is_PutText l2 \<and> \<not> is_PutText l3 \<and>
           st' = append_marks (data result) [l1, l2, l3, label_of ext s p i] st"
    unfolding st' org cv_line_append putText_append label_of_def append_marks_append
    by (intro exI conjI; (rule refl)?) simp_all
qed

lemma drawPose_fault:
  "drawPose ext s p i result st = Inl e \<Longrightarrow> e = OutOfBoundsRead"
  by (auto simp: drawPose_def Let_def bindF_def split: sum.splits dest: coordsOf_fault)

lemma is_PutText_label_of [simp]: "is_PutText (label_of ext s p i)"
  by (simp add: label_of_def)

lemma drawPose_loop_eq_Inr:
  "drawPose_loop ext s ps i result st = Inr st' \<Longrightarrow>
     (ps \<noteq> [] \<longrightarrow> i + length ps \<le> length (shapes s)) \<and>
     (\<exists>cmds. st' = append_marks (data result) cmds st \<and>
        filter is_PutText cmds = map (\<lambda>k. label_of ext s (ps ! k) (i + k)) [0..<length ps])"
proof (induction ps arbitrary: i st)
  case Nil
  then have "st' = append_marks (data result) [] st \<and>
      filter is_PutText [] = map (\<lambda>k. label_of ext s ([] ! k) (i + k)) [0..<length []]"
    by simp
  then have "\<exists>cmds. st' = append_marks (data result) cmds st \<and>
      filter is_PutText cmds = map (\<lambda>k. label_of ext s ([] ! k) (i + k)) [0..<length []]"
    by (rule exI)
  then show ?case by simp
next
  case (Cons p ps)
  from Cons.prems obtain st1 where d: "drawPose ext s p i result st = Inr st1"
    and r: "drawPose_loop ext s ps (Suc i) result st1 = Inr st'"
    by (auto simp: bindF_eq_Inr)
  from drawPose_eq_Inr(3) [OF d] obtain l1 l2 l3 where
    l: "\<not> is_PutText l1" "\<not> is_PutText l2" "\<not> is_PutText l3"
    and st1: "st1 = append_marks (data result) [l1, l2, l3, label_of ext s p i] st"
    by blast
  from Cons.IH [OF r] obtain cmds where
    n': "ps \<noteq> [] \<longrightarrow> Suc i + length ps \<le> length (shapes s)"
    and st': "st' = append_marks (data result) cmds st1"
    and f: "filter is_PutText cmds = map (\<lambda>k. label_of ext s (ps ! k) (Suc i + k)) [0..<length ps]"
    by blast
  have a: "st' = append_marks (data result) ([l1, l2, l3, label_of ext s p i] @ cmds) st"
    using st' st1 by simp
  have b: "filter is_PutText ([l1, l2, l3, label_of ext s p i] @ cmds)
      = map (\<lambda>k. label_of ext s ((p # ps) ! k) (i + k)) [0..<length (p # ps)]"
    using l f by (simp add: map_upt_Suc del: upt_Suc)
  have n: "i + length (p # ps) \<le> length (shapes s)"
    using n' drawPose_eq_Inr(1) [OF d] by (cases ps) simp_all
  from n a b show ?case
    by blast
qed

lemma drawPose_loop_fault:
  "drawPose_loop ext s ps i result st = Inl e \<Longrightarrow> e = OutOfBoundsRead"
proof (induction ps arbitrary: i st)
  case Nil
  then show ?case by simp
next
  case (Cons p ps)
  show ?case
  proof (cases "drawPose ext s p i result st")
    case (Inl e')
    with Cons.prems have "e = e'" by simp
    with Inl show ?thesis using drawPose_fault by blast
  next
    case (Inr st1)
    with Cons.prems have "drawPose_loop ext s ps (Suc i) result st1 = Inl e" by simp
    then show ?thesis by (rule Cons.IH)
  qed
qed

lemma drawDetections_fault:
  assumes "drawDetections ext s img fs ps st = Inl e"
  shows "e = OutOfBoundsRead"
proof -
  let ?result = "fst (clone img st)"
  let ?st1 = "snd (clone img st)"
  let ?features = "if fs \<noteq> [] then drawFeatures fs ?result ?st1 else Inr ?st1"
  from assms have b: "bindF ?features (\<lambda>st2.
      bindF (drawPose_loop ext s ps 0 ?result st2) (\<lambda>st3. Inr (?result, st3))) = Inl e"
    by (simp add: drawDetections_def split_beta)
  show ?thesis
  proof (cases ?features)
    case (Inl e')
    with b have "e = e'" by simp
    with Inl show ?thesis
      using drawFeatures_fault by (auto split: if_splits)
  next
    case (Inr st2)
    with b have "bindF (drawPose_loop ext s ps 0 ?result st2) (\<lambda>st3. Inr (?result, st3)) = Inl e"
      by simp
    then have "drawPose_loop ext s ps 0 ?result st2 = Inl e"
      by (cases "drawPose_loop ext s ps 0 ?result st2") simp_all
    then show ?thesis
      by (rule drawPose_loop_fault)
  qed
qed

lemma drawDetections_eq_Inr:
  assumes "drawDetections ext s img fs ps st = Inr (result, st')"
  shows "result = img\<lparr>data := brk st\<rparr>"
    and "length ps \<le> length (shapes s)"
    and "\<exists>cmds. st' = append_marks (brk st) cmds (snd (clone img st)) \<and>
           filter is_PutText cmds = map (\<lambda>k. label_of ext s (ps ! k) k) [0..<length ps]"
proof -
  let ?result = "fst (clone img st)"
  let ?st1 = "snd (clone img st)"
  let ?features = "if fs \<noteq> [] then drawFeatures fs ?result ?st1 else Inr ?st1"
  from assms obtain st2 where f: "?features = Inr st2"
    and p: "drawPose_loop ext s ps 0 ?result st2 = Inr st'"
    and res: "result = ?result"
    by (auto simp: drawDetections_def bindF_eq_Inr split_beta)
  have d: "data ?result = brk st"
    by (simp add: clone_def)
  show "result = img\<lparr>data := brk st\<rparr>"
    using res by (simp add: clone_def)
  from f obtain c1 where c1: "st2 = append_marks (brk st) c1 ?st1" "filter is_PutText c1 = []"
  proof (cases "fs \<noteq> []")
    case True
    with f have "drawFeatures fs ?result ?st1 = Inr st2" by simp
    from drawFeatures_eq_Inr [OF this] d that show ?thesis by auto
  next
    case False
    with f have "st2 = append_marks (brk st) [] ?st1" by simp
    then show ?thesis by (rule that) simp
  qed
  from drawPose_loop_eq_Inr [OF p] d obtain c2 where
    n: "ps \<noteq> [] \<longrightarrow> length ps \<le> length (shapes s)"
    and c2: "st' = append_marks (brk st) c2 st2"
      "filter is_PutText c2 = map (\<lambda>k. label_of ext s (ps ! k) k) [0..<length ps]"
    by auto
  show "length ps \<le> length (shapes s)"
    using n by (cases ps) simp_all
  have "st' = append_marks (brk st) (c1 @ c2) ?st1 \<and>
      filter is_PutText (c1 @ c2) = map (\<lambda>k. label_of ext s (ps ! k) k) [0..<length ps]"
    using c1 c2 by simp
  then show "\<exists>cmds. st' = append_marks (brk st) cmds (snd (clone img st)) \<and>
           filter is_PutText cmds = map (\<lambda>k. label_of ext s (ps ! k) k) [0..<length ps]"
    by blast
qed

subsection \<open>drawDetections\<close>

text \<open>
  C8, amended. \<^verbatim>\<open>drawDetections\<close> does not mutate its inputs: when it returns, the
  returned image has the size of the base image and a newly allocated buffer, every buffer
  that existed before the call, the one of the base image among them, holds what it held
  before, and the new buffer holds the pixels of the base image with the annotations drawn
  after what was drawn on it before. The landmark lists and the pose matrices are passed
  by constant reference and are values here. The returned image is not a function of the
  arguments alone: label \<open>i\<close> is placed at the sellion of the estimator's stored shape \<open>i\<close>.
\<close>

theorem drawDetections_frame:
  assumes "drawDetections ext s original_image detected_features detected_poses st
             = Inr (result, st')"
  shows "data result = brk st \<and>
         rows result = rows original_image \<and>
         cols result = cols original_image \<and>
         brk st' = Suc (brk st) \<and>
         (\<forall>a. a \<noteq> brk st \<longrightarrow> mem st' a = mem st a) \<and>
         (data original_image < brk st \<longrightarrow>
            mem st' (data original_image) = mem st (data original_image)) \<and>
         base (mem st' (data result)) = base (mem st (data original_image)) \<and>
         (\<exists>cmds. marks (mem st' (data result)) = marks (mem st (data original_image)) @ cmds) \<and>
         filter is_PutText (marks (mem st' (data result)))
           = filter is_PutText (marks (mem st (data original_image)))
             @ map (\<lambda>i. PutText (pose_label (detected_poses ! i))
                           (toCv (parts (shapes s ! i) ! feature_index ext SELLION))
                           (1 / 2) text_color 2)
                 [0..<length detected_poses]"
proof -
  note d = drawDetections_eq_Inr [OF assms]
  from d(3) obtain cmds where
    st': "st' = append_marks (brk st) cmds (snd (clone original_image st))"
    and t: "filter is_PutText cmds
      = map (\<lambda>k. label_of ext s (detected_poses ! k) k) [0..<length detected_poses]"
    by blast
  have r: "data result = brk st" "rows result = rows original_image"
    "cols result = cols original_image"
    by (simp_all add: d(1))
  have b: "brk st' = Suc (brk st)"
    by (simp add: st' append_marks_frame clone_def)
  have f: "\<forall>a. a \<noteq> brk st \<longrightarrow> mem st' a = mem st a"
    by (simp add: st' append_marks_frame clone_def)
  have c: "base (mem st' (data result)) = base (mem st (data original_image))"
    by (simp add: r st' append_marks_frame clone_def)
  have m: "marks (mem st' (data result)) = marks (mem st (data original_image)) @ cmds"
    by (simp add: r st' append_marks_frame clone_def)
  have l: "filter is_PutText (marks (mem st' (data result)))
           = filter is_PutText (marks (mem st (data original_image)))
             @ map (\<lambda>i. PutText (pose_label (detected_poses ! i))
                           (toCv (parts (shapes s ! i) ! feature_index ext SELLION))
                           (1 / 2) text_color 2)
                 [0..<length detected_poses]"
    using t by (simp add: m label_of_def)
  from r b f c m l show ?thesis
    by auto
qed

text \<open>
  C9. With more poses than stored shapes, \<^verbatim>\<open>drawDetections\<close> reads the stored shapes
  past their end. When it returns, there are at most as many poses as stored shapes, and
  the labels written on the returned image are, in order, one per pose \<open>i\<close>, placed at the
  sellion of the stored shape \<open>i\<close>, whatever the landmark lists passed as argument are.
\<close>

theorem drawDetections_label_from_stored_shapes:
  "(length (shapes s) < length detected_poses \<longrightarrow>
      drawDetections ext s original_image detected_features detected_poses st
        = Inl OutOfBoundsRead) \<and>
   (drawDetections ext s original_image detected_features detected_poses st
      = Inr (result, st') \<longrightarrow>
      length detected_poses \<le> length (shapes s) \<and>
      filter is_PutText (marks (mem st' (data result)))
        = filter is_PutText (marks (mem st (data original_image)))
          @ map (\<lambda>i. PutText (pose_label (detected_poses ! i))
                        (toCv (parts (shapes s ! i) ! feature_index ext SELLION))
                        (1 / 2) text_color 2)
              [0..<length detected_poses])"
proof (rule conjI; intro impI)
  assume a: "length (shapes s) < length detected_poses"
  show "drawDetections ext s original_image detected_features detected_poses st
      = Inl OutOfBoundsRead"
  proof (cases "drawDetections ext s original_image detected_features detected_poses st")
    case (Inl e)
    then show ?thesis
      using drawDetections_fault by blast
  next
    case (Inr r)
    then have "drawDetections ext s original_image detected_features detected_poses st
        = Inr (fst r, snd r)"
      by simp
    from drawDetections_eq_Inr(2) [OF this] a show ?thesis
      by simp
  qed
next
  assume a: "drawDetections ext s original_image detected_features detected_poses st
      = Inr (result, st')"
  note d = drawDetections_eq_Inr [OF a]
  from d(3) obtain cmds where
    st': "st' = append_marks (brk st) cmds (snd (clone original_image st))"
    and f: "filter is_PutText cmds
      = map (\<lambda>k. label_of ext s (detected_poses ! k) k) [0..<length detected_poses]"
    by blast
  have m: "marks (mem st' (data result)) = marks (mem st (data original_image)) @ cmds"
    by (simp add: d(1) st' append_marks_frame clone_def)
  show "length detected_poses \<le> length (shapes s) \<and>
      filter is_PutText (marks (mem st' (data result)))
        = filter is_PutText (marks (mem st (data original_image)))
          @ map (\<lambda>i. PutText (pose_label (detected_poses ! i))
                        (toCv (parts (shapes s ! i) ! feature_index ext SELLION))
                        (1 / 2) text_color 2)
              [0..<length detected_poses]"
    using d(2) f by (simp add: m label_of_def)
qed


lemma sample_label:
  "pose_label ((1, 0, 0, 0), (0, 1, 0, 0), (0, 0, 1, 1), (0, 0, 0, 1)) = ''(0cm, 0cm, 100cm)''"
proof -
  have ch: "char_of (48 :: nat) = CHR ''0''" "char_of (49 :: nat) = CHR ''1''"
    by code_simp+
  have a: "digits_of 0 = ''0''"
    by (subst digits_of.simps) (simp add: ch)
  have b: "digits_of 1 = ''1''"
    by (subst digits_of.simps) (simp add: ch)
  have b': "digits_of (Suc 0) = ''1''"
    using b by simp
  have c: "digits_of 10 = ''10''"
    by (subst digits_of.simps) (simp add: b' ch)
  have d: "digits_of 100 = ''100''"
    by (subst digits_of.simps) (simp add: c ch)
  show ?thesis
    by (simp add: pose_label_def translation_col_def to_string_def rnd64_def rnd_zero
        rnd64_values [unfolded rnd64_def] a d)
qed

lemma sample_sellion:
  "coordsOf sample_externals (sample_estimator 3) 0 SELLION = Inr (PointT 33 60)"
  "coordsOf sample_externals (sample_estimator 4) 0 SELLION = Inr (PointT 34 60)"
  by (simp_all add: coordsOf_def vec_at_def sample_estimator_def sample_externals_def
        sample_shape_def toCv_def toPoint2f_def signed_take_bit_eq_take_bit_shift take_bit_eq_mod)

lemma sample_axes:
  "cvRound 0 = 0" "cvRound 50 = 50" "cvRound 33 = 33" "cvRound 34 = 34" "cvRound 60 = 60"
  using cvRound_of_int [of 0] cvRound_of_int [of 50] cvRound_of_int [of 33]
    cvRound_of_int [of 34] cvRound_of_int [of 60] by simp_all

lemma sample_projectPoints:
  "projectPoints sample_externals rvec tvec camera coeffs (Point3f x y z) = PointT x y"
  by (simp add: sample_externals_def)

lemma sample_drawDetections:
  "returned_image (drawDetections sample_externals (sample_estimator 3) sample_image []
      [((1, 0, 0, 0), (0, 1, 0, 0), (0, 0, 1, 1), (0, 0, 0, 1))] sample_store)
   = Inr \<lparr>base = [7],
          marks = [Line (PointT 0 0) (PointT 0 0) x_axis_color 2,
                   Line (PointT 0 0) (PointT 0 50) y_axis_color 2,
                   Line (PointT 0 0) (PointT 50 0) z_axis_color 2,
                   PutText ''(0cm, 0cm, 100cm)'' (PointT 33 60) (1 / 2) text_color 2]\<rparr>"
  "returned_image (drawDetections sample_externals (sample_estimator 4) sample_image []
      [((1, 0, 0, 0), (0, 1, 0, 0), (0, 0, 1, 1), (0, 0, 0, 1))] sample_store)
   = Inr \<lparr>base = [7],
          marks = [Line (PointT 0 0) (PointT 0 0) x_axis_color 2,
                   Line (PointT 0 0) (PointT 0 50) y_axis_color 2,
                   Line (PointT 0 0) (PointT 50 0) z_axis_color 2,
                   PutText ''(0cm, 0cm, 100cm)'' (PointT 34 60) (1 / 2) text_color 2]\<rparr>"
  by (simp_all add: returned_image_def drawDetections_def clone_def drawPose_def Let_def
      sample_sellion sample_label sample_axes cv_line_def putText_def toPoint_def
      sample_image_def sample_store_def sample_projectPoints)


lemma line_loop_returns:
  "(\<forall>i\<in>set idxs. i < length fp) \<Longrightarrow> \<exists>st'. line_loop fp idxs result st = Inr st'"
proof (induction idxs arbitrary: st)
  case Nil
  then show ?case by simp
next
  case (Cons i idxs)
  then have "i < length fp" "i - 1 < length fp"
    by auto
  then have "line_loop fp (i # idxs) result st
      = line_loop fp idxs result (cv_line st result (fp ! i) (fp ! (i - 1)) line_color 2)"
    by (simp add: vec_at_def)
  then show ?case
    using Cons by simp
qed

lemma line_between_returns:
  "i < length fp \<Longrightarrow> j < length fp \<Longrightarrow> \<exists>st'. line_between fp i j result st = Inr st'"
  by (simp add: line_between_def vec_at_def)

lemma steps_return:
  assumes "\<And>st. \<exists>st'. f st = Inr st'" and "\<And>st. \<exists>st'. g st = Inr st'"
  shows "\<exists>st'. bindF (f st) g = Inr (st' :: store)"
proof -
  obtain st1 where "f st = Inr st1"
    using assms(1) by blast
  then show ?thesis
    using assms(2) by simp
qed

lemma indices_below:
  "b \<le> n \<Longrightarrow> \<forall>i\<in>set [a..<b]. i < (n :: nat)"
  by simp

lemma drawFeatures_face_returns:
  assumes "68 \<le> length fp"
  shows "\<exists>st'. drawFeatures_face fp result st = Inr st'"
proof -
  have loop: "\<exists>st'. line_loop fp [a..<b] result st = Inr st'" if "b \<le> 68" for a b st
    using that assms by (intro line_loop_returns indices_below) simp
  have single: "\<exists>st'. line_between fp i j result st = Inr st'" if "i < 68" "j < 68" for i j st
    using that assms by (intro line_between_returns) simp_all
  show ?thesis
    unfolding drawFeatures_face_def
    by (rule steps_return, rule loop, simp,
        rule steps_return, rule loop, simp,
        rule steps_return, rule loop, simp,
        rule steps_return, rule loop, simp,
        rule steps_return, rule loop, simp,
        rule steps_return, rule single, simp, simp,
        rule steps_return, rule loop, simp,
        rule steps_return, rule single, simp, simp,
        rule steps_return, rule loop, simp,
        rule steps_return, rule single, simp, simp,
        rule steps_return, rule loop, simp,
        rule steps_return, rule single, simp, simp,
        rule steps_return, rule loop, simp,
        rule single, simp, simp)
qed

lemma drawFeatures_returns:
  "(\<forall>fp\<in>set fs. 68 \<le> length fp) \<Longrightarrow> \<exists>st'. drawFeatures fs result st = Inr st'"
proof (induction fs arbitrary: st)
  case Nil
  then show ?case by simp
next
  case (Cons fp fs)
  then obtain st1 where "drawFeatures_face fp result st = Inr st1"
    using drawFeatures_face_returns [of fp result st] by auto
  then show ?case
    using Cons by simp
qed

lemma drawPose_returns:
  assumes "i < length (shapes s)"
    and "feature_index ext SELLION < length (parts (shapes s ! i))"
  shows "\<exists>st'. drawPose ext s p i result st = Inr st'"
  using assms by (simp add: drawPose_def Let_def coordsOf_def vec_at_def)

lemma drawPose_loop_returns:
  "i + length ps \<le> length (shapes s) \<Longrightarrow>
   (\<forall>k<length (shapes s). feature_index ext SELLION < length (parts (shapes s ! k))) \<Longrightarrow>
   \<exists>st'. drawPose_loop ext s ps i result st = Inr st'"
proof (induction ps arbitrary: i st)
  case Nil
  then show ?case by simp
next
  case (Cons p ps)
  from Cons.prems have "i < length (shapes s)"
    "feature_index ext SELLION < length (parts (shapes s ! i))"
    by simp_all
  then obtain st1 where "drawPose ext s p i result st = Inr st1"
    using drawPose_returns by blast
  moreover have "\<exists>st'. drawPose_loop ext s ps (Suc i) result st1 = Inr st'"
    using Cons.prems by (intro Cons.IH) simp_all
  ultimately show ?case
    by simp
qed

lemma drawDetections_returns:
  assumes "\<forall>fp\<in>set fs. 68 \<le> length fp"
    and "length ps \<le> length (shapes s)"
    and "\<forall>k<length (shapes s). feature_index ext SELLION < length (parts (shapes s ! k))"
  shows "\<exists>result st'. drawDetections ext s img fs ps st = Inr (result, st')"
proof -
  let ?result = "fst (clone img st)"
  let ?st1 = "snd (clone img st)"
  have "\<exists>st2. (if fs \<noteq> [] then drawFeatures fs ?result ?st1 else Inr ?st1) = Inr st2"
    using drawFeatures_returns [OF assms(1), of ?result ?st1] by simp
  then obtain st2 where
    f: "(if fs \<noteq> [] then drawFeatures fs ?result ?st1 else Inr ?st1) = Inr st2"
    by blast
  obtain st3 where p: "drawPose_loop ext s ps 0 ?result st2 = Inr st3"
    using drawPose_loop_returns [of 0 ps s ext ?result st2] assms(2,3) by auto
  show ?thesis
    using f p by (simp add: drawDetections_def split_beta)
qed


lemma sample_drawDetections_returns:
  "\<exists>result st'. drawDetections sample_externals (sample_estimator x) sample_image
      [replicate 68 (PointT 5 5)] [p] sample_store = Inr (result, st')"
  by (rule drawDetections_returns)
    (simp_all add: sample_estimator_def sample_shape_def sample_externals_def)

lemma sample_stored_sellion:
  "toCv (parts (shapes (sample_estimator 3) ! 0) ! feature_index sample_externals SELLION)
     = PointT 33 60"
  by (simp add: sample_estimator_def sample_externals_def sample_shape_def toCv_def
      signed_take_bit_eq_take_bit_shift take_bit_eq_mod)

theorem drawDetections_frame_witness:
  "data sample_image < brk sample_store \<and>
   (\<exists>result st'.
      drawDetections sample_externals (sample_estimator 3) sample_image
        [replicate 68 (PointT 5 5)]
        [((1, 0, 0, 0), (0, 1, 0, 0), (0, 0, 1, 1), (0, 0, 0, 1))] sample_store
        = Inr (result, st') \<and>
      data result = 1 \<and> brk st' = 2 \<and>
      mem st' (data sample_image) = mem sample_store (data sample_image) \<and>
      base (mem st' (data result)) = [7] \<and>
      filter is_PutText (marks (mem st' (data result)))
        = [PutText ''(0cm, 0cm, 100cm)'' (PointT 33 60) (1 / 2) text_color 2])"
proof -
  obtain result st' where
    r: "drawDetections sample_externals (sample_estimator 3) sample_image
        [replicate 68 (PointT 5 5)]
        [((1, 0, 0, 0), (0, 1, 0, 0), (0, 0, 1, 1), (0, 0, 0, 1))] sample_store
        = Inr (result, st')"
    using sample_drawDetections_returns by blast
  have a: "data sample_image < brk sample_store"
    by (simp add: sample_image_def sample_store_def)
  have "data result = 1 \<and> brk st' = 2 \<and>
      mem st' (data sample_image) = mem sample_store (data sample_image) \<and>
      base (mem st' (data result)) = [7] \<and>
      filter is_PutText (marks (mem st' (data result)))
        = [PutText ''(0cm, 0cm, 100cm)'' (PointT 33 60) (1 / 2) text_color 2]"
    using drawDetections_frame [OF r] a
    by (auto simp add: sample_store_def sample_image_def sample_stored_sellion sample_label)
  with a r show ?thesis
    by blast
qed

text \<open>
  C8 as stated fails: \<^verbatim>\<open>drawDetections\<close> is not a function of its arguments alone. With
  the same base image, landmark lists and poses, two estimators whose stored shapes differ
  return different images.
\<close>

theorem drawDetections_not_pure_counterexample:
  "returned_image (drawDetections sample_externals (sample_estimator 3) sample_image []
      [((1, 0, 0, 0), (0, 1, 0, 0), (0, 0, 1, 1), (0, 0, 0, 1))] sample_store)
   \<noteq> returned_image (drawDetections sample_externals (sample_estimator 4) sample_image []
      [((1, 0, 0, 0), (0, 1, 0, 0), (0, 0, 1, 1), (0, 0, 0, 1))] sample_store)"
  by (simp add: sample_drawDetections)

theorem drawDetections_label_from_stored_shapes_witness:
  "length (shapes (sample_estimator 3))
     < length [((1, 0, 0, 0), (0, 1, 0, 0), (0, 0, 1, 1), (0, 0, 0, 1)) :: head_pose,
               ((1, 0, 0, 0), (0, 1, 0, 0), (0, 0, 1, 1), (0, 0, 0, 1))] \<and>
   drawDetections sample_externals (sample_estimator 3) sample_image
     [replicate 68 (PointT 5 5)]
     [((1, 0, 0, 0), (0, 1, 0, 0), (0, 0, 1, 1), (0, 0, 0, 1)),
      ((1, 0, 0, 0), (0, 1, 0, 0), (0, 0, 1, 1), (0, 0, 0, 1))] sample_store
     = Inl OutOfBoundsRead \<and>
   (\<exists>result st'.
      drawDetections sample_externals (sample_estimator 3) sample_image
        [replicate 68 (PointT 5 5)]
        [((1, 0, 0, 0), (0, 1, 0, 0), (0, 0, 1, 1), (0, 0, 0, 1))] sample_store
        = Inr (result, st') \<and>
      filter is_PutText (marks (mem st' (data result)))
        = [PutText ''(0cm, 0cm, 100cm)'' (PointT 33 60) (1 / 2) text_color 2])"
proof -
  let ?p = "((1, 0, 0, 0), (0, 1, 0, 0), (0, 0, 1, 1), (0, 0, 0, 1)) :: head_pose"
  let ?fs = "[replicate 68 (PointT 5 5 :: Point)]"
  have many: "length (shapes (sample_estimator 3)) < length [?p, ?p]"
    by (simp add: sample_estimator_def)
  have a: "drawDetections sample_externals (sample_estimator 3) sample_image ?fs [?p, ?p]
      sample_store = Inl OutOfBoundsRead"
    using many drawDetections_label_from_stored_shapes
      [of "sample_estimator 3" "[?p, ?p]" sample_externals sample_image ?fs sample_store]
    by blast
  obtain result st' where
    r: "drawDetections sample_externals (sample_estimator 3) sample_image ?fs [?p] sample_store
        = Inr (result, st')"
    using sample_drawDetections_returns by blast
  have "filter is_PutText (marks (mem st' (data result)))
      = [PutText ''(0cm, 0cm, 100cm)'' (PointT 33 60) (1 / 2) text_color 2]"
    using r drawDetections_label_from_stored_shapes
      [of "sample_estimator 3" "[?p]" sample_externals sample_image ?fs sample_store result st']
    by (simp add: sample_stored_sellion sample_label sample_store_def)
  with many a r show ?thesis
    by blast
qed

subsection \<open>Line intersection\<close>

lemma rnd32_zero: "rnd32 0 = Finite 0"
  by (simp add: rnd32_def rnd_zero)

lemma rnd32_minus: "rnd32 (- v) = fneg (rnd32 v)"
  by (simp add: rnd32_def rnd_minus)

lemma rnd64_zero: "rnd64 0 = Finite 0"
  by (simp add: rnd64_def rnd_zero)

lemma EPS_finite: "\<exists>e. EPS = Finite e \<and> 0 < e"
proof -
  have "EPS = Finite (3022314549036573 / 2 ^ 78) \<and> (0::real) < 3022314549036573 / 2 ^ 78"
    by (simp add: EPS_value)
  then show ?thesis by blast
qed

lemma intersection_parallel:
  "flt (fabs (cross_of o1 p1 o2 p2)) EPS \<Longrightarrow> intersection o1 p1 o2 p2 r = (False, r)"
  by (simp add: intersection_def cross_of_def Let_def)

lemma intersection_crossing:
  "\<not> flt (fabs (cross_of o1 p1 o2 p2)) EPS \<Longrightarrow>
   intersection o1 p1 o2 p2 r =
     (True, pt_add32 o1 (pt_scale64 (pt_sub32 p1 o1)
        (fdiv rnd32 (cross32 (pt_sub32 o2 o1) (pt_sub32 p2 o2)) (cross_of o1 p1 o2 p2))))"
  by (simp add: intersection_def cross_of_def Let_def)

lemma crossing_on_second_line:
  fixes ax ay bx by' cx cy dx dy :: real
  assumes "(bx - ax) * (dy - cy) - (by' - ay) * (dx - cx) \<noteq> 0"
  shows "ax + (bx - ax) * (((cx - ax) * (dy - cy) - (cy - ay) * (dx - cx))
            / ((bx - ax) * (dy - cy) - (by' - ay) * (dx - cx)))
         = cx + (dx - cx) * (((cx - ax) * (by' - ay) - (cy - ay) * (bx - ax))
            / ((bx - ax) * (dy - cy) - (by' - ay) * (dx - cx)))"
  using assms by (simp add: field_simps)

text \<open>The parametric solution in exact arithmetic is on both lines.\<close>

lemma parametric_solution_on_both:
  fixes a b c d :: Point2f
  defines "x \<equiv> pt_sub c a" and "d1 \<equiv> pt_sub b a" and "d2 \<equiv> pt_sub d c"
  defines "cross \<equiv> xc d1 * yc d2 - yc d1 * xc d2"
  assumes nz: "cross \<noteq> 0"
  shows "pt_add a (pt_scale d1 ((xc x * yc d2 - yc x * xc d2) / cross))
       = pt_add c (pt_scale d2 ((xc x * yc d1 - yc x * xc d1) / cross))"
proof -
  obtain ax ay where a: "a = PointT ax ay" by (cases a)
  obtain bx by' where b: "b = PointT bx by'" by (cases b)
  obtain cx cy where c: "c = PointT cx cy" by (cases c)
  obtain dx dy where d: "d = PointT dx dy" by (cases d)
  have cr: "cross = (bx - ax) * (dy - cy) - (by' - ay) * (dx - cx)"
    by (simp add: cross_def d1_def d2_def pt_sub_def a b c d)
  have nz': "(bx - ax) * (dy - cy) - (by' - ay) * (dx - cx) \<noteq> 0"
    using nz cr by simp
  have nz'': "(dx - cx) * (by' - ay) - (dy - cy) * (bx - ax) \<noteq> 0"
    using nz' by (simp add: algebra_simps)
  have X: "ax + (bx - ax) * (((cx - ax) * (dy - cy) - (cy - ay) * (dx - cx))
            / ((bx - ax) * (dy - cy) - (by' - ay) * (dx - cx)))
         = cx + (dx - cx) * (((cx - ax) * (by' - ay) - (cy - ay) * (bx - ax))
            / ((bx - ax) * (dy - cy) - (by' - ay) * (dx - cx)))"
    by (rule crossing_on_second_line [OF nz'])
  have Y: "ay + (by' - ay) * (((cx - ax) * (dy - cy) - (cy - ay) * (dx - cx))
            / ((bx - ax) * (dy - cy) - (by' - ay) * (dx - cx)))
         = cy + (dy - cy) * (((cx - ax) * (by' - ay) - (cy - ay) * (bx - ax))
            / ((bx - ax) * (dy - cy) - (by' - ay) * (dx - cx)))"
    using crossing_on_second_line [of ay by' dx cx ax bx dy cy] nz' nz''
    by (simp add: field_simps)
  show ?thesis
    using X Y
    by (simp add: x_def d1_def d2_def cr pt_add_def pt_sub_def pt_scale_def a b c d)
qed

lemma lies_on_parametric:
  "lies_on a b (pt_add a (pt_scale (pt_sub b a) t))"
  by (simp add: lies_on_def pt_add_def pt_scale_def pt_sub_def)

lemma pt_val_pt_fin [simp]: "pt_val (pt_fin q) = q"
  by (simp add: pt_val_def pt_fin_def val_def)


lemma not_below_EPS_nonzero:
  "\<not> flt (fabs (Finite v)) EPS \<Longrightarrow> v \<noteq> 0"
  by (auto simp: EPS_value)

text \<open>
  C7, amended. The helper reports "no intersection" exactly when the magnitude of the
  \<^verbatim>\<open>float\<close> value \<^verbatim>\<open>cross\<close> that it computes, with the differences, the products and
  their difference each rounded to single precision, is below \<open>EPS = 1e-8\<close>. Otherwise it
  reports success and writes \<open>r = o1 + d1 * t1\<close> with
  \<open>t1 = (x.x * d2.y - x.y * d2.x) / cross\<close>, \<open>x = o2 - o1\<close>, every operation rounded as the
  types of the source prescribe. When no operation rounds, \<open>r\<close> is the parametric solution
  in exact arithmetic, and it is on the line through \<open>o1, p1\<close> (parameter \<open>t1\<close>) and on the
  line through \<open>o2, p2\<close> (parameter \<open>t2 = (x.x * d1.y - x.y * d1.x) / cross\<close>).
\<close>

theorem intersection_spec:
  "(fst (intersection o1 p1 o2 p2 r) = False \<longleftrightarrow> flt (fabs (cross_of o1 p1 o2 p2)) EPS) \<and>
   (\<not> flt (fabs (cross_of o1 p1 o2 p2)) EPS \<longrightarrow>
      intersection o1 p1 o2 p2 r =
        (True, pt_add32 o1 (pt_scale64 (pt_sub32 p1 o1)
           (fdiv rnd32 (cross32 (pt_sub32 o2 o1) (pt_sub32 p2 o2)) (cross_of o1 p1 o2 p2))))) \<and>
   (\<not> flt (fabs (cross_of o1 p1 o2 p2)) EPS \<and> unrounded o1 p1 o2 p2 \<longrightarrow>
      (let a = pt_val o1; b = pt_val p1; c = pt_val o2; d = pt_val p2;
           x = pt_sub c a; d1 = pt_sub b a; d2 = pt_sub d c;
           cross = xc d1 * yc d2 - yc d1 * xc d2;
           t1 = (xc x * yc d2 - yc x * xc d2) / cross;
           t2 = (xc x * yc d1 - yc x * xc d1) / cross;
           q = pt_val (snd (intersection o1 p1 o2 p2 r))
       in snd (intersection o1 p1 o2 p2 r) = pt_fin q \<and>
          q = pt_add a (pt_scale d1 t1) \<and>
          q = pt_add c (pt_scale d2 t2) \<and>
          lies_on a b q \<and> lies_on c d q))"
proof (intro conjI impI)
  show "fst (intersection o1 p1 o2 p2 r) = False \<longleftrightarrow> flt (fabs (cross_of o1 p1 o2 p2)) EPS"
    by (cases "flt (fabs (cross_of o1 p1 o2 p2)) EPS")
      (simp_all add: intersection_parallel intersection_crossing)
next
  assume "\<not> flt (fabs (cross_of o1 p1 o2 p2)) EPS"
  then show "intersection o1 p1 o2 p2 r =
        (True, pt_add32 o1 (pt_scale64 (pt_sub32 p1 o1)
           (fdiv rnd32 (cross32 (pt_sub32 o2 o1) (pt_sub32 p2 o2)) (cross_of o1 p1 o2 p2))))"
    by (rule intersection_crossing)
next
  assume h: "\<not> flt (fabs (cross_of o1 p1 o2 p2)) EPS \<and> unrounded o1 p1 o2 p2"
  let ?a = "pt_val o1" and ?b = "pt_val p1" and ?c = "pt_val o2" and ?d = "pt_val p2"
  let ?x = "pt_sub ?c ?a" and ?d1 = "pt_sub ?b ?a" and ?d2 = "pt_sub ?d ?c"
  let ?cross = "xc ?d1 * yc ?d2 - yc ?d1 * xc ?d2"
  let ?num = "xc ?x * yc ?d2 - yc ?x * xc ?d2"
  let ?t1 = "?num / ?cross"
  let ?t2 = "(xc ?x * yc ?d1 - yc ?x * xc ?d1) / ?cross"
  from h have u: "unrounded o1 p1 o2 p2" by simp
  have s1: "pt_sub32 o2 o1 = pt_fin ?x"
    and s2: "pt_sub32 p1 o1 = pt_fin ?d1"
    and s3: "pt_sub32 p2 o2 = pt_fin ?d2"
    and cr: "cross32 (pt_sub32 p1 o1) (pt_sub32 p2 o2) = Finite ?cross"
    and nm: "cross32 (pt_sub32 o2 o1) (pt_sub32 p2 o2) = Finite ?num"
    and dv: "fdiv rnd32 (Finite ?num) (Finite ?cross) = Finite ?t1"
    and sc: "pt_scale64 (pt_sub32 p1 o1) (Finite ?t1) = pt_fin (pt_scale ?d1 ?t1)"
    and ad: "pt_add32 o1 (pt_fin (pt_scale ?d1 ?t1)) = pt_fin (pt_add ?a (pt_scale ?d1 ?t1))"
    using u unfolding unrounded_def Let_def by blast+
  have co: "cross_of o1 p1 o2 p2 = Finite ?cross"
    using cr by (simp add: cross_of_def Let_def)
  from h have "\<not> flt (fabs (Finite ?cross)) EPS"
    by (simp only: co simp_thms)
  then have nz: "?cross \<noteq> 0"
    by (rule not_below_EPS_nonzero)
  from h have nb: "\<not> flt (fabs (cross_of o1 p1 o2 p2)) EPS"
    by simp
  have "intersection o1 p1 o2 p2 r =
      (True, pt_add32 o1 (pt_scale64 (pt_sub32 p1 o1)
         (fdiv rnd32 (cross32 (pt_sub32 o2 o1) (pt_sub32 p2 o2)) (cross_of o1 p1 o2 p2))))"
    by (rule intersection_crossing [OF nb])
  also have "\<dots> = (True, pt_fin (pt_add ?a (pt_scale ?d1 ?t1)))"
    by (simp only: co nm dv sc ad)
  finally have res: "snd (intersection o1 p1 o2 p2 r) = pt_fin (pt_add ?a (pt_scale ?d1 ?t1))"
    by simp
  have q: "pt_val (snd (intersection o1 p1 o2 p2 r)) = pt_add ?a (pt_scale ?d1 ?t1)"
    by (simp add: res)
  have both: "pt_add ?a (pt_scale ?d1 ?t1) = pt_add ?c (pt_scale ?d2 ?t2)"
    using parametric_solution_on_both [OF nz] .
  have l1: "lies_on ?a ?b (pt_add ?a (pt_scale ?d1 ?t1))"
    by (rule lies_on_parametric)
  have l2: "lies_on ?c ?d (pt_add ?a (pt_scale ?d1 ?t1))"
    unfolding both by (rule lies_on_parametric)
  show "let a = pt_val o1; b = pt_val p1; c = pt_val o2; d = pt_val p2;
           x = pt_sub c a; d1 = pt_sub b a; d2 = pt_sub d c;
           cross = xc d1 * yc d2 - yc d1 * xc d2;
           t1 = (xc x * yc d2 - yc x * xc d2) / cross;
           t2 = (xc x * yc d1 - yc x * xc d1) / cross;
           q = pt_val (snd (intersection o1 p1 o2 p2 r))
       in snd (intersection o1 p1 o2 p2 r) = pt_fin q \<and>
          q = pt_add a (pt_scale d1 t1) \<and>
          q = pt_add c (pt_scale d2 t2) \<and>
          lies_on a b q \<and> lies_on c d q"
    unfolding Let_def q using res both l1 l2 by simp
qed


lemma pt_val_finite: "pt_val (PointT (Finite u) (Finite v)) = PointT u v"
  by (simp add: pt_val_def val_def)

lemmas eval32 = pt_sub32_def pt_add32_def pt_scale64_def cross32_def cross_of_def fsub_def
  rnd32_zero rnd32_minus rnd64_zero rnd32_values rnd64_values EPS_value

lemma crossing_example:
  "cross_of (PointT (Finite 0) (Finite 0)) (PointT (Finite 1) (Finite 1))
     (PointT (Finite 0) (Finite 1)) (PointT (Finite 1) (Finite 0)) = Finite (- 2)"
  "unrounded (PointT (Finite 0) (Finite 0)) (PointT (Finite 1) (Finite 1))
     (PointT (Finite 0) (Finite 1)) (PointT (Finite 1) (Finite 0))"
  by (simp_all add: unrounded_def Let_def eval32 pt_val_def pt_fin_def val_def pt_sub_def
      pt_add_def pt_scale_def)

lemma parallel_example:
  "cross_of (PointT (Finite 0) (Finite 0)) (PointT (Finite 1) (Finite 1))
     (PointT (Finite 0) (Finite 1)) (PointT (Finite 1) (Finite 2)) = Finite 0"
  "cross_of (PointT (Finite 0) (Finite 0)) (PointT (Finite 2) (Finite 4))
     (PointT (Finite 1) (Finite 0)) (PointT (Finite 2) (Finite 2)) = Finite 0"
  by (simp_all add: eval32)

theorem intersection_spec_witness:
  "\<not> flt (fabs (cross_of (PointT (Finite 0) (Finite 0)) (PointT (Finite 1) (Finite 1))
        (PointT (Finite 0) (Finite 1)) (PointT (Finite 1) (Finite 0)))) EPS \<and>
   unrounded (PointT (Finite 0) (Finite 0)) (PointT (Finite 1) (Finite 1))
     (PointT (Finite 0) (Finite 1)) (PointT (Finite 1) (Finite 0)) \<and>
   intersection (PointT (Finite 0) (Finite 0)) (PointT (Finite 1) (Finite 1))
     (PointT (Finite 0) (Finite 1)) (PointT (Finite 1) (Finite 0)) (PointT (Finite 7) (Finite 7))
     = (True, PointT (Finite (1 / 2)) (Finite (1 / 2))) \<and>
   lies_on (PointT 0 0) (PointT 1 1) (PointT (1 / 2) (1 / 2)) \<and>
   lies_on (PointT 0 1) (PointT 1 0) (PointT (1 / 2) (1 / 2)) \<and>
   flt (fabs (cross_of (PointT (Finite 0) (Finite 0)) (PointT (Finite 1) (Finite 1))
        (PointT (Finite 0) (Finite 1)) (PointT (Finite 1) (Finite 2)))) EPS \<and>
   fst (intersection (PointT (Finite 0) (Finite 0)) (PointT (Finite 1) (Finite 1))
     (PointT (Finite 0) (Finite 1)) (PointT (Finite 1) (Finite 2)) (PointT (Finite 7) (Finite 7)))
     = False"
proof -
  let ?o1 = "PointT (Finite 0) (Finite 0)" and ?p1 = "PointT (Finite 1) (Finite 1)"
  let ?o2 = "PointT (Finite 0) (Finite 1)" and ?p2 = "PointT (Finite 1) (Finite 0)"
  let ?p2' = "PointT (Finite 1) (Finite 2)" and ?r = "PointT (Finite 7) (Finite 7)"
  have a: "\<not> flt (fabs (cross_of ?o1 ?p1 ?o2 ?p2)) EPS"
    by (simp add: crossing_example EPS_value)
  have u: "unrounded ?o1 ?p1 ?o2 ?p2"
    by (rule crossing_example)
  have b: "flt (fabs (cross_of ?o1 ?p1 ?o2 ?p2')) EPS"
    by (simp add: parallel_example EPS_value)
  note crossing = intersection_spec [of ?o1 ?p1 ?o2 ?p2 ?r]
  note parallel = intersection_spec [of ?o1 ?p1 ?o2 ?p2' ?r]
  note third = crossing [THEN conjunct2, THEN conjunct2, rule_format, OF conjI [OF a u],
      unfolded Let_def]
  have e2: "pt_val (snd (intersection ?o1 ?p1 ?o2 ?p2 ?r)) = PointT (1 / 2) (1 / 2)"
    using third [THEN conjunct2, THEN conjunct1]
    by (simp add: pt_val_finite pt_sub_def pt_add_def pt_scale_def)
  have e1: "snd (intersection ?o1 ?p1 ?o2 ?p2 ?r) = PointT (Finite (1 / 2)) (Finite (1 / 2))"
    using third [THEN conjunct1] unfolding e2 by (simp add: pt_fin_def)
  have l: "lies_on (PointT 0 0) (PointT 1 1) (PointT (1 / 2) (1 / 2))"
      "lies_on (PointT 0 1) (PointT 1 0) (PointT (1 / 2) (1 / 2))"
    using third [THEN conjunct2, THEN conjunct2, THEN conjunct2] unfolding e2
    by (simp_all add: pt_val_finite)
  have q: "snd (intersection ?o1 ?p1 ?o2 ?p2 ?r) = PointT (Finite (1 / 2)) (Finite (1 / 2))
      \<and> lies_on (PointT 0 0) (PointT 1 1) (PointT (1 / 2) (1 / 2))
      \<and> lies_on (PointT 0 1) (PointT 1 0) (PointT (1 / 2) (1 / 2))"
    using e1 l by simp
  have t: "fst (intersection ?o1 ?p1 ?o2 ?p2 ?r) = True"
    using crossing a by simp
  have c: "intersection ?o1 ?p1 ?o2 ?p2 ?r = (True, PointT (Finite (1 / 2)) (Finite (1 / 2)))"
    using q t by (simp add: prod_eq_iff)
  have d: "fst (intersection ?o1 ?p1 ?o2 ?p2' ?r) = False"
    using parallel b by simp
  show ?thesis
    using a u b c d q by simp
qed

text \<open>
  C7 as stated fails. For the lines through \<open>(0,0), (4097,4096)\<close> and through
  \<open>(0,0), (4098,4097)\<close> the cross product of the direction vectors is 1, yet the helper
  reports "no intersection": \<open>4097 * 4097\<close> rounds to 16785408 in single precision. For the
  lines through \<open>(0,0), (1,1)\<close> and through \<open>(0,1), (2,0)\<close> the helper returns the point
  with both coordinates \<open>11184811 / 16777216\<close>, the \<^verbatim>\<open>float\<close> nearest to \<open>2/3\<close>, which is
  not on the second line.
\<close>

theorem intersection_spec_counterexample:
  "fst (intersection (PointT (Finite 0) (Finite 0)) (PointT (Finite 4097) (Finite 4096))
     (PointT (Finite 0) (Finite 0)) (PointT (Finite 4098) (Finite 4097))
     (PointT (Finite 7) (Finite 7))) = False \<and>
   \<not> \<bar>exact_cross (PointT 0 0) (PointT 4097 4096) (PointT 0 0) (PointT 4098 4097)\<bar> < 1 / 10 ^ 8 \<and>
   intersection (PointT (Finite 0) (Finite 0)) (PointT (Finite 1) (Finite 1))
     (PointT (Finite 0) (Finite 1)) (PointT (Finite 2) (Finite 0))
     (PointT (Finite 7) (Finite 7))
     = (True, PointT (Finite (11184811 / 16777216)) (Finite (11184811 / 16777216))) \<and>
   \<not> lies_on (PointT 0 1) (PointT 2 0) (PointT (11184811 / 16777216) (11184811 / 16777216))"
  by (simp add: intersection_def Let_def eval32 exact_cross_def pt_sub_def lies_on_def)

text \<open>
  C10. On the "no intersection" outcome (parallel lines, \<open>|cross| < 1e-8\<close>) the output
  parameter \<open>r\<close> keeps the value it had before the call: whenever the helper returns
  false, \<open>r\<close> is unmodified, so \<open>r\<close> is written on the success path only.
\<close>

theorem intersection_failure_keeps_r:
  "(flt (fabs (cross_of o1 p1 o2 p2)) EPS \<longrightarrow> intersection o1 p1 o2 p2 r = (False, r)) \<and>
   (fst (intersection o1 p1 o2 p2 r) = False \<longrightarrow> snd (intersection o1 p1 o2 p2 r) = r)"
proof (cases "flt (fabs (cross_of o1 p1 o2 p2)) EPS")
  case True
  then show ?thesis by (simp add: intersection_parallel)
next
  case False
  then show ?thesis by (simp add: intersection_crossing)
qed

theorem intersection_failure_keeps_r_witness:
  "flt (fabs (cross_of (PointT (Finite 0) (Finite 0)) (PointT (Finite 2) (Finite 4))
      (PointT (Finite 1) (Finite 0)) (PointT (Finite 2) (Finite 2)))) EPS \<and>
   intersection (PointT (Finite 0) (Finite 0)) (PointT (Finite 2) (Finite 4))
      (PointT (Finite 1) (Finite 0)) (PointT (Finite 2) (Finite 2)) (PointT (Finite 5) (Finite (- 3)))
     = (False, PointT (Finite 5) (Finite (- 3)))"
proof -
  have a: "flt (fabs (cross_of (PointT (Finite 0) (Finite 0)) (PointT (Finite 2) (Finite 4))
      (PointT (Finite 1) (Finite 0)) (PointT (Finite 2) (Finite 2)))) EPS"
    by (simp add: parallel_example EPS_value)
  show ?thesis
    using a intersection_failure_keeps_r
      [of "PointT (Finite 0) (Finite 0)" "PointT (Finite 2) (Finite 4)"
          "PointT (Finite 1) (Finite 0)" "PointT (Finite 2) (Finite 2)"
          "PointT (Finite 5) (Finite (- 3))"]
    by simp
qed

end
